theory Spec2Isabelle
  imports Complex_Main "HOL-Library.Sublist"
begin

section \<open>Python values and strings\<close>

text \<open>
  Python errors that the modelled functions can raise. Every raise of the source is a
  branch of the model returning \<open>Inl\<close> of one of these; \<open>UpstreamError\<close> stands for
  whatever an external service (the completion provider, the store's HTTP API) raises.
\<close>

datatype py_error = ValueError | TypeError | IndexError | KeyError | AttributeError
  | OverflowError | ValidationError | UpstreamError | RetryError

text \<open>
  Python's float values: the finite doubles, each as the real number it denotes, the two
  infinities and NaN. Their arithmetic (the rounding of sums, quotients and conversions)
  is not fixed here: the functions that compute with floats take it as a parameter.
\<close>

datatype pyfloat = Finite real | PosInf | NegInf | NaN

text \<open>
  JSON values as \<^verbatim>\<open>json.loads\<close> and \<^verbatim>\<open>response.json()\<close> return them. An object is an
  association list with distinct keys (a Python dict in insertion order).
\<close>

datatype json = JNull | JBool bool | JInt int | JFloat pyfloat | JStr string
  | JList "json list" | JObj "(string \<times> json) list"

text \<open>
  Strings are lists of 8-bit characters; only the ASCII letters have a case, as in
  \<^verbatim>\<open>str.upper\<close> and \<^verbatim>\<open>str.lower\<close> on ASCII text.
\<close>

definition upper_char :: "char \<Rightarrow> char" where
  "upper_char c =
     (case map_of (zip ''abcdefghijklmnopqrstuvwxyz'' ''ABCDEFGHIJKLMNOPQRSTUVWXYZ'') c of
        Some u \<Rightarrow> u | None \<Rightarrow> c)"

definition lower_char :: "char \<Rightarrow> char" where
  "lower_char c =
     (case map_of (zip ''ABCDEFGHIJKLMNOPQRSTUVWXYZ'' ''abcdefghijklmnopqrstuvwxyz'') c of
        Some l \<Rightarrow> l | None \<Rightarrow> c)"

definition upper :: "string \<Rightarrow> string" where
  "upper s = map upper_char s"

definition lower :: "string \<Rightarrow> string" where
  "lower s = map lower_char s"

text \<open>\<^verbatim>\<open>sub in s\<close> on strings: \<open>sub\<close> occurs in \<open>s\<close> as a contiguous block.\<close>

fun contains :: "string \<Rightarrow> string \<Rightarrow> bool" where
  "contains sub [] = (sub = [])"
| "contains sub (c # cs) = (prefix sub (c # cs) \<or> contains sub cs)"

text \<open>\<^verbatim>\<open>s.startswith(p)\<close>.\<close>

definition startswith :: "string \<Rightarrow> string \<Rightarrow> bool" where
  "startswith s p = prefix p s"

text \<open>
  \<^verbatim>\<open>s.strip()\<close>: the ASCII characters for which \<^verbatim>\<open>str.isspace\<close> holds are removed at
  both ends.
\<close>

definition is_space :: "char \<Rightarrow> bool" where
  "is_space c = List.member [CHR 0x09, CHR 0x0A, CHR 0x0B, CHR 0x0C, CHR 0x0D,
                             CHR 0x1C, CHR 0x1D, CHR 0x1E, CHR 0x1F, CHR 0x20] c"

definition strip :: "string \<Rightarrow> string" where
  "strip s = rev (dropWhile is_space (rev (dropWhile is_space s)))"

text \<open>
  \<^verbatim>\<open>s.split(sep)\<close> for a non-empty separator: the pieces between the successive
  non-overlapping occurrences of \<open>sep\<close>, scanning from the left. \<open>acc\<close> holds the current
  piece, reversed.
\<close>

function split_from :: "string \<Rightarrow> string \<Rightarrow> string \<Rightarrow> string list" where
  "split_from sep acc [] = [rev acc]"
| "split_from sep acc (c # cs) =
     (if sep \<noteq> [] \<and> prefix sep (c # cs)
      then rev acc # split_from sep [] (drop (length sep) (c # cs))
      else split_from sep (c # acc) cs)"
  by pat_completeness auto
termination
  by (relation "measure (\<lambda>(sep, acc, s). length s)") auto

definition split :: "string \<Rightarrow> string \<Rightarrow> string list" where
  "split s sep = split_from sep [] s"

text \<open>\<^verbatim>\<open>str(n)\<close> for an integer: its decimal digits, with a minus sign when negative.\<close>

definition digit_char :: "nat \<Rightarrow> char" where
  "digit_char d = ''0123456789'' ! d"

function str_nat :: "nat \<Rightarrow> string" where
  "str_nat n = (if n < 10 then [digit_char n] else str_nat (n div 10) @ [digit_char (n mod 10)])"
  by pat_completeness auto
termination
  by (relation "measure id") auto

declare str_nat.simps [simp del]

definition str_int :: "int \<Rightarrow> string" where
  "str_int i = (if i < 0 then CHR ''-'' # str_nat (nat (- i)) else str_nat (nat i))"

text \<open>
  \<^verbatim>\<open>str(xs)\<close> for a list of strings, as an f-string renders it: the \<^verbatim>\<open>repr\<close> of each
  element between brackets. \<^verbatim>\<open>repr\<close> is the string between single quotes; this is
  exact for strings of printable ASCII characters without quotes and backslashes (all
  the strings that the code below builds itself), where Python adds no escapes.
\<close>

definition py_repr_str :: "string \<Rightarrow> string" where
  "py_repr_str s = [CHR 0x27] @ s @ [CHR 0x27]"

fun join :: "string \<Rightarrow> string list \<Rightarrow> string" where
  "join sep [] = []"
| "join sep [x] = x"
| "join sep (x # y # ys) = x @ sep @ join sep (y # ys)"

definition py_str_list :: "string list \<Rightarrow> string" where
  "py_str_list xs = ''['' @ join '', '' (map py_repr_str xs) @ '']''"

text \<open>\<^verbatim>\<open>d.get(k)\<close> and \<^verbatim>\<open>d.get(k, default)\<close> on a dict.\<close>

definition dict_get :: "(string \<times> json) list \<Rightarrow> string \<Rightarrow> json option" where
  "dict_get d k = map_of d k"

definition dict_get_default :: "(string \<times> json) list \<Rightarrow> string \<Rightarrow> json \<Rightarrow> json" where
  "dict_get_default d k dflt = (case map_of d k of Some v \<Rightarrow> v | None \<Rightarrow> dflt)"

text \<open>
  \<^verbatim>\<open>d[k] = v\<close> on a dict: an existing key keeps its place, a new key goes to the end.
\<close>

fun dict_set :: "(string \<times> json) list \<Rightarrow> string \<Rightarrow> json \<Rightarrow> (string \<times> json) list" where
  "dict_set [] k v = [(k, v)]"
| "dict_set ((k', v') # d) k v = (if k' = k then (k, v) # d else (k', v') # dict_set d k v)"

text \<open>Truth value of a Python object in a condition.\<close>

fun truthy :: "json \<Rightarrow> bool" where
  "truthy JNull = False"
| "truthy (JBool b) = b"
| "truthy (JInt i) = (i \<noteq> 0)"
| "truthy (JFloat f) = (f \<noteq> Finite 0)"
| "truthy (JStr s) = (s \<noteq> [])"
| "truthy (JList xs) = (xs \<noteq> [])"
| "truthy (JObj d) = (d \<noteq> [])"

text \<open>
  Iterating over a value in a \<^verbatim>\<open>for\<close>: a list gives its elements, a string its
  characters, a dict its keys; None, booleans and numbers raise \<^verbatim>\<open>TypeError\<close>.
\<close>

fun py_iter :: "json \<Rightarrow> py_error + json list" where
  "py_iter (JList xs) = Inr xs"
| "py_iter (JStr s) = Inr (map (\<lambda>c. JStr [c]) s)"
| "py_iter (JObj d) = Inr (map (\<lambda>kv. JStr (fst kv)) d)"
| "py_iter JNull = Inl TypeError"
| "py_iter (JBool b) = Inl TypeError"
| "py_iter (JInt i) = Inl TypeError"
| "py_iter (JFloat r) = Inl TypeError"

text \<open>
  A list comprehension \<^verbatim>\<open>[f(x) for x in xs]\<close> whose \<open>f\<close> can raise: the first failure,
  from the left, is the result.
\<close>

fun map_raising :: "('a \<Rightarrow> py_error + 'b) \<Rightarrow> 'a list \<Rightarrow> py_error + 'b list" where
  "map_raising f [] = Inr []"
| "map_raising f (x # xs) =
     (case f x of
        Inl e \<Rightarrow> Inl e
      | Inr y \<Rightarrow> (case map_raising f xs of Inl e \<Rightarrow> Inl e | Inr ys \<Rightarrow> Inr (y # ys)))"

section \<open>Data model (app/models/schemas.py)\<close>

text \<open>\<^verbatim>\<open>class DataSource(str, Enum)\<close>: the five data categories of a store.\<close>

datatype DataSource = ORDERS | PRODUCTS | INVENTORY | CUSTOMERS | SALES

fun DataSource_value :: "DataSource \<Rightarrow> string" where
  "DataSource_value ORDERS = ''orders''"
| "DataSource_value PRODUCTS = ''products''"
| "DataSource_value INVENTORY = ''inventory''"
| "DataSource_value CUSTOMERS = ''customers''"
| "DataSource_value SALES = ''sales''"

text \<open>
  \<^verbatim>\<open>DataSource(s)\<close>: the member whose value equals \<open>s\<close>; the enum raises \<^verbatim>\<open>ValueError\<close>
  for every other value, whatever its type.
\<close>

fun DataSource_of :: "json \<Rightarrow> py_error + DataSource" where
  "DataSource_of (JStr s) =
     (if s = ''orders'' then Inr ORDERS
      else if s = ''products'' then Inr PRODUCTS
      else if s = ''inventory'' then Inr INVENTORY
      else if s = ''customers'' then Inr CUSTOMERS
      else if s = ''sales'' then Inr SALES
      else Inl ValueError)"
| "DataSource_of v = Inl ValueError"

text \<open>\<^verbatim>\<open>class QuestionIntent(BaseModel)\<close>: the parsed intent of a question.\<close>

record QuestionIntent =
  primary_intent :: string
  data_sources :: "DataSource list"
  time_period :: "string option"
  metrics :: "string list"
  filters :: "(string \<times> json) list"
  aggregation :: "string option"

text \<open>
  The validation that the constructor \<^verbatim>\<open>QuestionIntent(...)\<close> runs on its keyword
  arguments (pydantic 2, which \<^verbatim>\<open>pydantic_settings\<close> in app/core/config.py requires):
  \<^verbatim>\<open>str\<close> fields take strings only, \<^verbatim>\<open>Optional[str]\<close> also None, \<^verbatim>\<open>List[str]\<close> a list
  of strings, \<^verbatim>\<open>Dict[str, Any]\<close> a dict; anything else raises \<^verbatim>\<open>ValidationError\<close>.
\<close>

fun as_str :: "json \<Rightarrow> string option" where
  "as_str (JStr s) = Some s"
| "as_str v = None"

fun as_optional_str :: "json \<Rightarrow> string option option" where
  "as_optional_str JNull = Some None"
| "as_optional_str (JStr s) = Some (Some s)"
| "as_optional_str v = None"

fun as_str_list :: "json \<Rightarrow> string list option" where
  "as_str_list (JList xs) =
     (if list_all (\<lambda>x. as_str x \<noteq> None) xs then Some (map (\<lambda>x. the (as_str x)) xs) else None)"
| "as_str_list v = None"

fun as_dict :: "json \<Rightarrow> (string \<times> json) list option" where
  "as_dict (JObj d) = Some d"
| "as_dict v = None"

definition make_QuestionIntent ::
  "json \<Rightarrow> DataSource list \<Rightarrow> json \<Rightarrow> json \<Rightarrow> json \<Rightarrow> json \<Rightarrow> py_error + QuestionIntent" where
  "make_QuestionIntent goal ds tp ms fs ag =
     (case (as_str goal, as_optional_str tp, as_str_list ms, as_dict fs, as_optional_str ag) of
        (Some goal', Some tp', Some ms', Some fs', Some ag') \<Rightarrow>
          Inr \<lparr>primary_intent = goal', data_sources = ds, time_period = tp', metrics = ms',
               filters = fs', aggregation = ag'\<rparr>
      | _ \<Rightarrow> Inl ValidationError)"

section \<open>External services and the trace of calls\<close>

text \<open>
  The completion provider (app/agent/llm_client.py, \<^verbatim>\<open>LLMClient.generate\<close>) and the
  store's API (app/agent/shopify_client.py, \<^verbatim>\<open>execute_shopifyql\<close> and
  \<^verbatim>\<open>execute_graphql\<close>) are network calls. They are parameters of the model: functions
  of an external state \<open>'s\<close> that return a value or raise, and change the state, so that
  two calls with the same argument may answer differently.
\<close>

record 's services =
  llm_text :: "string \<Rightarrow> real \<Rightarrow> 's \<Rightarrow> (py_error + string) \<times> 's"
  llm_json :: "string \<Rightarrow> real \<Rightarrow> 's \<Rightarrow> (py_error + json) \<times> 's"
  execute_shopifyql :: "string \<Rightarrow> 's \<Rightarrow> (py_error + json) \<times> 's"
  execute_graphql :: "QuestionIntent \<Rightarrow> 's \<Rightarrow> (py_error + json) \<times> 's"

text \<open>
  Every call of a service is recorded, in order: the prompt, response format and
  temperature of a completion, the query text of a ShopifyQL call, the intent of a
  GraphQL call.
\<close>

datatype event = LLMCall string string real | ShopifyQLCall string | GraphQLCall QuestionIntent

record 's world =
  ext :: 's
  trace :: "event list"

definition generate_text ::
  "'s services \<Rightarrow> string \<Rightarrow> real \<Rightarrow> 's world \<Rightarrow> (py_error + string) \<times> 's world" where
  "generate_text sv prompt temperature w =
     (case llm_text sv prompt temperature (ext w) of
        (r, s') \<Rightarrow> (r, \<lparr>ext = s', trace = trace w @ [LLMCall prompt ''text'' temperature]\<rparr>))"

definition generate_json ::
  "'s services \<Rightarrow> string \<Rightarrow> real \<Rightarrow> 's world \<Rightarrow> (py_error + json) \<times> 's world" where
  "generate_json sv prompt temperature w =
     (case llm_json sv prompt temperature (ext w) of
        (r, s') \<Rightarrow> (r, \<lparr>ext = s', trace = trace w @ [LLMCall prompt ''json'' temperature]\<rparr>))"

definition call_shopifyql ::
  "'s services \<Rightarrow> string \<Rightarrow> 's world \<Rightarrow> (py_error + json) \<times> 's world" where
  "call_shopifyql sv q w =
     (case execute_shopifyql sv q (ext w) of
        (r, s') \<Rightarrow> (r, \<lparr>ext = s', trace = trace w @ [ShopifyQLCall q]\<rparr>))"

definition call_graphql ::
  "'s services \<Rightarrow> QuestionIntent \<Rightarrow> 's world \<Rightarrow> (py_error + json) \<times> 's world" where
  "call_graphql sv intent w =
     (case execute_graphql sv intent (ext w) of
        (r, s') \<Rightarrow> (r, \<lparr>ext = s', trace = trace w @ [GraphQLCall intent]\<rparr>))"

section \<open>Intent Extractor (AnalyticsAgent._understand_intent)\<close>

text \<open>The prompt: an f-string around the question and the optional context.\<close>

definition intent_prompt :: "string \<Rightarrow> string option \<Rightarrow> string" where
  \<open>intent_prompt question context =
     ''Analyze this question about a Shopify store and extract the intent.\<newline>\<newline>Question: ''
     @ question
     @ ''\<newline>''
     @ (case context of
          None \<Rightarrow> []
        | Some c \<Rightarrow> if c \<noteq> [] then ''Additional context: '' @ c else [])
     @ ''\<newline>\<newline>Identify:\<newline>1. Primary intent (e.g., inventory_forecast, sales_analysis, customer_analysis, product_performance)\<newline>2. Required data sources (orders, products, inventory, customers)\<newline>3. Time period (if mentioned)\<newline>4. Specific metrics needed\<newline>5. Any filters (product names, categories, etc.)\<newline>6. Type of aggregation (sum, average, count, etc.)\<newline>\<newline>Respond in JSON format:\<newline>{\<newline>    "primary_intent": "string",\<newline>    "data_sources": ["orders", "products", "inventory", "customers"],\<newline>    "time_period": "last 30 days" or null,\<newline>    "metrics": ["revenue", "units_sold"],\<newline>    "filters": {"product_name": "value"},\<newline>    "aggregation": "sum" or null\<newline>}''\<close>

text \<open>
  The construction of the intent from the completion, in the order in which Python
  evaluates it: \<^verbatim>\<open>response.get\<close> needs a dict (\<^verbatim>\<open>AttributeError\<close> otherwise); the
  comprehension \<^verbatim>\<open>[DataSource(s) for s in response.get("data_sources", ["orders"])]\<close>
  iterates and converts each entry; the other fields are read with their defaults; the
  constructor validates.
\<close>

definition intent_of_response :: "json \<Rightarrow> py_error + QuestionIntent" where
  "intent_of_response response =
     (case response of
        JObj d \<Rightarrow>
          (case py_iter (dict_get_default d ''data_sources'' (JList [JStr ''orders''])) of
             Inl e \<Rightarrow> Inl e
           | Inr xs \<Rightarrow>
               (case map_raising DataSource_of xs of
                  Inl e \<Rightarrow> Inl e
                | Inr ds \<Rightarrow>
                    make_QuestionIntent
                      (dict_get_default d ''primary_intent'' (JStr ''general_analysis''))
                      ds
                      (dict_get_default d ''time_period'' JNull)
                      (dict_get_default d ''metrics'' (JList []))
                      (dict_get_default d ''filters'' (JObj []))
                      (dict_get_default d ''aggregation'' JNull)))
      | _ \<Rightarrow> Inl AttributeError)"

text \<open>
  \<^verbatim>\<open>_understand_intent\<close>: one structured completion (default temperature 0.7), then
  the construction above. Nothing is caught: an exception of the call or of the
  construction leaves the function.
\<close>

definition understand_intent ::
  "'s services \<Rightarrow> string \<Rightarrow> string option \<Rightarrow> 's world
     \<Rightarrow> (py_error + QuestionIntent) \<times> 's world" where
  "understand_intent sv question context w =
     (case generate_json sv (intent_prompt question context) 0.7 w of
        (Inl e, w') \<Rightarrow> (Inl e, w')
      | (Inr response, w') \<Rightarrow> (intent_of_response response, w'))"

section \<open>Plan Builder (AnalyticsAgent._create_plan)\<close>

text \<open>
  One entry of the plan: the dict \<^verbatim>\<open>{"step": .., "description": .., "priority": ..}\<close>.
\<close>

record plan_step =
  step :: string
  description :: string
  priority :: nat

definition fetch_inventory_step :: plan_step where
  "fetch_inventory_step =
     \<lparr>step = ''fetch_inventory'', description = ''Get current inventory levels'',
      priority = 1\<rparr>"

definition fetch_sales_data_step :: plan_step where
  "fetch_sales_data_step =
     \<lparr>step = ''fetch_sales_data'',
      description = ''Get sales/order data for the specified period'', priority = 1\<rparr>"

definition fetch_customer_data_step :: plan_step where
  "fetch_customer_data_step =
     \<lparr>step = ''fetch_customer_data'', description = ''Get customer information'',
      priority = 2\<rparr>"

definition fetch_product_data_step :: plan_step where
  "fetch_product_data_step =
     \<lparr>step = ''fetch_product_data'', description = ''Get product information'',
      priority = 2\<rparr>"

definition analyze_data_step :: plan_step where
  "analyze_data_step =
     \<lparr>step = ''analyze_data'',
      description = ''Calculate metrics and generate insights'', priority = 3\<rparr>"

text \<open>
  The body of \<^verbatim>\<open>_create_plan\<close> before the final sort: four membership tests on
  \<^verbatim>\<open>intent.data_sources\<close>, each appending a step, then the analysis step.
\<close>

definition unsorted_plan :: "QuestionIntent \<Rightarrow> plan_step list" where
  "unsorted_plan intent =
     (if List.member (data_sources intent) INVENTORY then [fetch_inventory_step] else [])
     @ (if List.member (data_sources intent) ORDERS \<or> List.member (data_sources intent) SALES
        then [fetch_sales_data_step] else [])
     @ (if List.member (data_sources intent) CUSTOMERS then [fetch_customer_data_step] else [])
     @ (if List.member (data_sources intent) PRODUCTS then [fetch_product_data_step] else [])
     @ [analyze_data_step]"

text \<open>
  \<^verbatim>\<open>sorted(plan, key=lambda x: x["priority"])\<close>. Python's \<^verbatim>\<open>sorted\<close> is stable, and
  so is \<^const>\<open>sort_key\<close> (insertion from the right, before the first element that is not
  smaller).
\<close>

definition create_plan :: "QuestionIntent \<Rightarrow> plan_step list" where
  "create_plan intent = sort_key priority (unsorted_plan intent)"

section \<open>Query Generator (app/agent/query_generator.py)\<close>

text \<open>The constant \<^verbatim>\<open>SHOPIFYQL_SCHEMA\<close>, line by line.\<close>

definition SHOPIFYQL_SCHEMA :: string where
  "SHOPIFYQL_SCHEMA = concat
   [''\<newline>'',
    ''ShopifyQL Schema Reference:\<newline>'',
    ''\<newline>'',
    ''## Available Tables:\<newline>'',
    ''1. sales - Sales data with revenue, discounts, taxes\<newline>'',
    ''2. orders - Order information\<newline>'',
    ''3. products - Product catalog\<newline>'',
    ''4. customers - Customer data\<newline>'',
    ''\<newline>'',
    ''## Common Fields:\<newline>'',
    ''\<newline>'',
    ''### sales table:\<newline>'',
    ''- day, week, month, year (time dimensions)\<newline>'',
    ''- product_title, product_id, product_type, product_vendor\<newline>'',
    ''- variant_title, variant_sku\<newline>'',
    ''- gross_sales, discounts, returns, net_sales, taxes, total_sales\<newline>'',
    ''- ordered_item_quantity\<newline>'',
    ''- billing_country, billing_region, billing_city\<newline>'',
    ''\<newline>'',
    ''### orders table:\<newline>'',
    ''- order_id, order_name\<newline>'',
    ''- created_at, processed_at\<newline>'',
    ''- total_price, subtotal_price\<newline>'',
    ''- financial_status, fulfillment_status\<newline>'',
    ''\<newline>'',
    ''### products table:\<newline>'',
    ''- product_id, product_title, product_type, product_vendor\<newline>'',
    ''- variant_id, variant_title, variant_sku\<newline>'',
    ''- inventory_quantity\<newline>'',
    ''\<newline>'',
    ''### customers table:\<newline>'',
    ''- customer_id, customer_email\<newline>'',
    ''- orders_count, total_spent\<newline>'',
    ''- created_at\<newline>'',
    ''\<newline>'',
    ''## Syntax:\<newline>'',
    ''FROM <table>\<newline>'',
    ''SHOW <fields>\<newline>'',
    ''GROUP BY <dimensions>\<newline>'',
    ''WHERE <conditions>\<newline>'',
    ''SINCE <date> UNTIL <date>\<newline>'',
    ''ORDER BY <field> DESC/ASC\<newline>'',
    ''LIMIT <number>\<newline>'',
    ''\<newline>'',
    ''## Date Functions:\<newline>'',
    ''- SINCE -30d (last 30 days)\<newline>'',
    ''- SINCE -7d (last 7 days)\<newline>'',
    ''- SINCE -90d (last 90 days)\<newline>'',
    ''- SINCE 2024-01-01 (specific date)\<newline>'',
    ''\<newline>'',
    ''## Aggregation Functions:\<newline>'',
    ''- SUM(), COUNT(), AVG(), MIN(), MAX()\<newline>'',
    ''\<newline>'',
    ''## Examples:\<newline>'',
    ''1. Top selling products last week:\<newline>'',
    ''   FROM sales\<newline>'',
    ''   SHOW product_title, SUM(ordered_item_quantity) AS units_sold, SUM(net_sales) AS revenue\<newline>'',
    ''   GROUP BY product_title\<newline>'',
    ''   SINCE -7d\<newline>'',
    ''   ORDER BY units_sold DESC\<newline>'',
    ''   LIMIT 5\<newline>'',
    ''\<newline>'',
    ''2. Daily sales for last 30 days:\<newline>'',
    ''   FROM sales\<newline>'',
    ''   SHOW day, SUM(net_sales) AS daily_revenue\<newline>'',
    ''   GROUP BY day\<newline>'',
    ''   SINCE -30d\<newline>'',
    ''   ORDER BY day ASC\<newline>'',
    ''\<newline>'',
    ''3. Inventory levels:\<newline>'',
    ''   FROM products\<newline>'',
    ''   SHOW product_title, variant_sku, inventory_quantity\<newline>'',
    ''   ORDER BY inventory_quantity ASC\<newline>'',
    ''   LIMIT 20\<newline>'']"

subsection \<open>Query Validator (ShopifyQLGenerator._validate_query)\<close>

text \<open>The dict \<^verbatim>\<open>{"is_valid": .., "errors": ..}\<close>.\<close>

record validation =
  is_valid :: bool
  errors :: "string list"

definition valid_tables :: "string list" where
  "valid_tables = [''SALES'', ''ORDERS'', ''PRODUCTS'', ''CUSTOMERS'']"

text \<open>
  An empty query returns at once with its own message. Otherwise four checks run on
  the upper-cased text, each appending its message to \<open>errors\<close>.
\<close>

definition validate_query :: "string \<Rightarrow> validation" where
  "validate_query query =
     (if query = [] then \<lparr>is_valid = False, errors = [''Query is empty'']\<rparr>
      else
        let query_upper = upper query;
            errors1 = (if \<not> contains ''FROM'' query_upper then [''Missing FROM clause'']
                       else []);
            has_valid_table = list_ex (\<lambda>table. contains table query_upper) valid_tables;
            errors2 = errors1 @ (if \<not> has_valid_table then [''Invalid or missing table name'']
                                 else []);
            errors3 = errors2 @ (if \<not> contains ''SHOW'' query_upper
                                 then [''Missing SHOW clause''] else []);
            errors4 = errors3 @ (if count_list query_upper (CHR ''('')
                                      \<noteq> count_list query_upper (CHR '')'')
                                 then [''Unmatched parentheses''] else [])
        in \<lparr>is_valid = (length errors4 = 0), errors = errors4\<rparr>)"

subsection \<open>Generation and repair (ShopifyQLGenerator)\<close>

definition should_use_graphql :: "QuestionIntent \<Rightarrow> bool" where
  "should_use_graphql intent =
     List.member [''customer_details'', ''order_details'', ''product_details'']
       (primary_intent intent)"

text \<open>
  The prompt of \<^verbatim>\<open>_generate_with_llm\<close>. \<open>py_str\<close> is Python's \<^verbatim>\<open>str\<close> of a value, which
  renders the filters dict; \<^verbatim>\<open>intent.aggregation\<close> prints as \<^verbatim>\<open>None\<close> when absent.
\<close>

definition generation_prompt :: "(json \<Rightarrow> string) \<Rightarrow> QuestionIntent \<Rightarrow> string" where
  "generation_prompt py_str intent =
     ''Generate a ShopifyQL query based on this intent.\<newline>\<newline>''
     @ SHOPIFYQL_SCHEMA
     @ ''\<newline>\<newline>User Intent:\<newline>- Primary intent: ''
     @ primary_intent intent
     @ ''\<newline>- Data sources needed: ''
     @ py_str_list (map DataSource_value (data_sources intent))
     @ ''\<newline>- Time period: ''
     @ (case time_period intent of
          None \<Rightarrow> ''last 30 days''
        | Some t \<Rightarrow> if t \<noteq> [] then t else ''last 30 days'')
     @ ''\<newline>- Metrics to calculate: ''
     @ py_str_list (metrics intent)
     @ ''\<newline>- Filters: ''
     @ py_str (JObj (filters intent))
     @ ''\<newline>- Aggregation type: ''
     @ (case aggregation intent of None \<Rightarrow> ''None'' | Some a \<Rightarrow> a)
     @ ''\<newline>\<newline>Generate ONLY the ShopifyQL query, no explanation. The query must be syntactically correct.\<newline>If asking about inventory projections or reordering, calculate daily average sales and project forward.\<newline>''"

text \<open>
  The clean-up of the completion: strip; when the text starts with a code fence, keep
  what lies between the first two fences (element 1 of the split) and drop a first line
  that names the language (\<^verbatim>\<open>query.index("\n")\<close> raises \<^verbatim>\<open>ValueError\<close> when there is
  no newline); strip again.
\<close>

definition clean_completion :: "string \<Rightarrow> py_error + string" where
  "clean_completion response =
     (let query = strip response in
      if startswith query ''```'' then
        (case split query ''```'' of
           p0 # query1 # ps \<Rightarrow>
             if startswith query1 ''sql'' \<or> startswith query1 ''shopifyql'' then
               (if List.member query1 (CHR 0x0A)
                then Inr (strip (drop 1 (dropWhile (\<lambda>c. c \<noteq> CHR 0x0A) query1)))
                else Inl ValueError)
             else Inr (strip query1)
         | _ \<Rightarrow> Inl IndexError)
      else Inr (strip query))"

definition generate_with_llm ::
  "(json \<Rightarrow> string) \<Rightarrow> 's services \<Rightarrow> QuestionIntent \<Rightarrow> 's world
     \<Rightarrow> (py_error + string) \<times> 's world" where
  "generate_with_llm py_str sv intent w =
     (case generate_text sv (generation_prompt py_str intent) 0.3 w of
        (Inl e, w') \<Rightarrow> (Inl e, w')
      | (Inr response, w') \<Rightarrow> (clean_completion response, w'))"

text \<open>The repair prompt of \<^verbatim>\<open>_fix_query\<close> and its single completion.\<close>

definition fix_prompt :: "string \<Rightarrow> string list \<Rightarrow> string" where
  "fix_prompt query errs =
     ''Fix this ShopifyQL query. It has the following errors: ''
     @ py_str_list errs
     @ ''\<newline>\<newline>Original query:\<newline>''
     @ query
     @ ''\<newline>\<newline>''
     @ SHOPIFYQL_SCHEMA
     @ ''\<newline>\<newline>Return ONLY the corrected query, no explanation.''"

definition fix_query ::
  "'s services \<Rightarrow> string \<Rightarrow> string list \<Rightarrow> 's world \<Rightarrow> (py_error + string) \<times> 's world" where
  "fix_query sv query errs w =
     (case generate_text sv (fix_prompt query errs) 0.2 w of
        (Inl e, w') \<Rightarrow> (Inl e, w')
      | (Inr response, w') \<Rightarrow> (Inr (strip response), w'))"

definition describe_query :: "QuestionIntent \<Rightarrow> string" where
  "describe_query intent =
     (case map_of
        [(''inventory_forecast'',
          ''Analyzing sales velocity and current inventory to project future needs''),
         (''sales_analysis'', ''Aggregating sales data to identify top performers and trends''),
         (''customer_analysis'', ''Analyzing customer purchase patterns and loyalty metrics''),
         (''product_performance'', ''Evaluating product performance metrics''),
         (''general_analysis'', ''Retrieving relevant store analytics'')]
        (primary_intent intent) of
        Some d \<Rightarrow> d
      | None \<Rightarrow> ''Analyzing store data'')"

text \<open>
  The dict that \<^verbatim>\<open>generate\<close> returns. The fallback result has the keys \<^verbatim>\<open>query\<close>,
  \<^verbatim>\<open>query_type\<close> and \<^verbatim>\<open>reason\<close>; the ShopifyQL result has \<^verbatim>\<open>query\<close>, \<^verbatim>\<open>query_type\<close>,
  \<^verbatim>\<open>is_valid\<close>, \<^verbatim>\<open>validation_errors\<close> and \<^verbatim>\<open>description\<close>. A key that a result does not
  have is \<open>None\<close> in its field (\<open>query_valid\<close> is the key \<^verbatim>\<open>is_valid\<close>, \<open>query_description\<close>
  the key \<^verbatim>\<open>description\<close>); the value of \<^verbatim>\<open>query\<close> is a string or Python's None.
\<close>

record generated_query =
  query :: "string option"
  query_type :: string
  reason :: "string option"
  query_valid :: "bool option"
  validation_errors :: "string list option"
  query_description :: "string option"

definition shopifyql_result :: "string \<Rightarrow> validation \<Rightarrow> QuestionIntent \<Rightarrow> generated_query" where
  "shopifyql_result q v intent =
     \<lparr>query = Some q, query_type = ''shopifyql'', reason = None,
      query_valid = Some (is_valid v), validation_errors = Some (errors v),
      query_description = Some (describe_query intent)\<rparr>"

definition graphql_result :: generated_query where
  "graphql_result =
     \<lparr>query = None, query_type = ''graphql'',
      reason = Some ''Query requires data not available in ShopifyQL'',
      query_valid = None, validation_errors = None, query_description = None\<rparr>"

text \<open>
  \<^verbatim>\<open>generate\<close>: the fallback decision, one generation, one validation, and when it fails
  one repair followed by one more validation. The plan is not used.
\<close>

definition generate ::
  "(json \<Rightarrow> string) \<Rightarrow> 's services \<Rightarrow> QuestionIntent \<Rightarrow> plan_step list \<Rightarrow> 's world
     \<Rightarrow> (py_error + generated_query) \<times> 's world" where
  "generate py_str sv intent plan w =
     (if should_use_graphql intent then (Inr graphql_result, w)
      else
        case generate_with_llm py_str sv intent w of
          (Inl e, w1) \<Rightarrow> (Inl e, w1)
        | (Inr q, w1) \<Rightarrow>
            let v = validate_query q in
            if \<not> is_valid v then
              (case fix_query sv q (errors v) w1 of
                 (Inl e, w2) \<Rightarrow> (Inl e, w2)
               | (Inr q', w2) \<Rightarrow> (Inr (shopifyql_result q' (validate_query q') intent), w2))
            else (Inr (shopifyql_result q v intent), w1))"

subsection \<open>Query templates (class QueryTemplates)\<close>

definition top_selling_products :: "int \<Rightarrow> int \<Rightarrow> string" where
  "top_selling_products days limit =
     ''\<newline>FROM sales\<newline>SHOW product_title, SUM(ordered_item_quantity) AS units_sold, SUM(net_sales) AS revenue\<newline>GROUP BY product_title\<newline>SINCE -''
     @ str_int days
     @ ''d\<newline>ORDER BY units_sold DESC\<newline>LIMIT ''
     @ str_int limit
     @ ''\<newline>''"

definition daily_sales :: "int \<Rightarrow> string" where
  "daily_sales days =
     ''\<newline>FROM sales\<newline>SHOW day, SUM(net_sales) AS daily_revenue, SUM(ordered_item_quantity) AS units\<newline>GROUP BY day\<newline>SINCE -''
     @ str_int days
     @ ''d\<newline>ORDER BY day ASC\<newline>''"

definition product_inventory :: string where
  "product_inventory =
     ''\<newline>FROM products\<newline>SHOW product_title, variant_sku, inventory_quantity\<newline>WHERE inventory_quantity > 0\<newline>ORDER BY inventory_quantity ASC\<newline>''"

definition low_stock_alert :: "int \<Rightarrow> string" where
  "low_stock_alert threshold =
     ''\<newline>FROM products\<newline>SHOW product_title, variant_sku, inventory_quantity\<newline>WHERE inventory_quantity <= ''
     @ str_int threshold
     @ ''\<newline>ORDER BY inventory_quantity ASC\<newline>''"

definition sales_by_product :: "int \<Rightarrow> string" where
  "sales_by_product days =
     ''\<newline>FROM sales\<newline>SHOW product_title, SUM(ordered_item_quantity) AS total_sold, SUM(net_sales) AS total_revenue\<newline>GROUP BY product_title\<newline>SINCE -''
     @ str_int days
     @ ''d\<newline>ORDER BY total_sold DESC\<newline>''"

text \<open>The default arguments of the templates.\<close>

definition default_templates :: "string list" where
  "default_templates =
     [top_selling_products 7 5, daily_sales 30, product_inventory, low_stock_alert 10,
      sales_by_product 30]"

section \<open>Query execution (AnalyticsAgent._execute_query)\<close>

text \<open>
  \<^verbatim>\<open>"errors" in data\<close>: a key of a dict, an element of a list, a substring of a string;
  on other values it raises \<^verbatim>\<open>TypeError\<close>. \<^verbatim>\<open>data["errors"]\<close> exists on a dict only.
\<close>

fun has_errors :: "json \<Rightarrow> py_error + bool" where
  "has_errors (JObj d) = Inr (List.member (map fst d) ''errors'')"
| "has_errors (JList xs) = Inr (List.member xs (JStr ''errors''))"
| "has_errors (JStr s) = Inr (contains ''errors'' s)"
| "has_errors v = Inl TypeError"

fun errors_of :: "json \<Rightarrow> py_error + json" where
  "errors_of (JObj d) = (case map_of d ''errors'' of Some v \<Rightarrow> Inr v | None \<Rightarrow> Inl KeyError)"
| "errors_of v = Inl TypeError"

text \<open>
  \<^verbatim>\<open>_validate_and_process_data\<close>: the three states of a normalized result, each a dict.
\<close>

definition validate_and_process_data ::
  "json \<Rightarrow> QuestionIntent \<Rightarrow> py_error + (string \<times> json) list" where
  "validate_and_process_data data intent =
     (if \<not> truthy data then
        Inr [(''is_empty'', JBool True),
             (''message'', JStr ''No data found for the specified criteria'')]
      else
        case has_errors data of
          Inl e \<Rightarrow> Inl e
        | Inr True \<Rightarrow>
            (case errors_of data of
               Inl e \<Rightarrow> Inl e
             | Inr es \<Rightarrow> Inr [(''is_error'', JBool True), (''errors'', es)])
        | Inr False \<Rightarrow> Inr [(''is_empty'', JBool False), (''data'', data)])"

text \<open>
  One attempt of \<^verbatim>\<open>_execute_query\<close>: the ShopifyQL call when the type is
  \<^verbatim>\<open>"shopifyql"\<close> and the query text is truthy (present and non-empty), the GraphQL call
  otherwise; then the normalization.
\<close>

definition execute_query_attempt ::
  "'s services \<Rightarrow> generated_query \<Rightarrow> QuestionIntent \<Rightarrow> 's world
     \<Rightarrow> (py_error + (string \<times> json) list) \<times> 's world" where
  "execute_query_attempt sv query_result intent w =
     (case (case query query_result of
              Some q \<Rightarrow>
                if query_type query_result = ''shopifyql'' \<and> q \<noteq> []
                then call_shopifyql sv q w else call_graphql sv intent w
            | None \<Rightarrow> call_graphql sv intent w) of
        (Inl e, w') \<Rightarrow> (Inl e, w')
      | (Inr data, w') \<Rightarrow> (validate_and_process_data data intent, w'))"

text \<open>
  The decorator \<^verbatim>\<open>@retry(stop=stop_after_attempt(settings.MAX_RETRIES), ...)\<close>: an
  attempt that raises is repeated, and after the last allowed attempt the decorator
  raises \<^verbatim>\<open>RetryError\<close>. The waiting between attempts is not modelled.
\<close>

definition MAX_RETRIES :: nat where
  "MAX_RETRIES = 3"

fun execute_query_attempts ::
  "nat \<Rightarrow> 's services \<Rightarrow> generated_query \<Rightarrow> QuestionIntent \<Rightarrow> 's world
     \<Rightarrow> (py_error + (string \<times> json) list) \<times> 's world" where
  "execute_query_attempts 0 sv query_result intent w = (Inl RetryError, w)"
| "execute_query_attempts (Suc n) sv query_result intent w =
     (case execute_query_attempt sv query_result intent w of
        (Inl e, w') \<Rightarrow> execute_query_attempts n sv query_result intent w'
      | (Inr d, w') \<Rightarrow> (Inr d, w'))"

definition execute_query ::
  "'s services \<Rightarrow> generated_query \<Rightarrow> QuestionIntent \<Rightarrow> 's world
     \<Rightarrow> (py_error + (string \<times> json) list) \<times> 's world" where
  "execute_query sv query_result intent w =
     execute_query_attempts MAX_RETRIES sv query_result intent w"

section \<open>Result Explainer (app/agent/result_explainer.py)\<close>

text \<open>
  The dict that the explainer returns. Every result has \<^verbatim>\<open>answer\<close>, \<^verbatim>\<open>confidence\<close>,
  \<^verbatim>\<open>query_used\<close> and \<^verbatim>\<open>data_source\<close>; \<^verbatim>\<open>raw_data\<close>, \<^verbatim>\<open>suggestions\<close> and \<^verbatim>\<open>errors\<close> (the
  field \<open>error_messages\<close>) are \<open>None\<close> where the result has no such key.
\<close>

record explanation =
  answer :: string
  confidence :: string
  query_used :: "string option"
  data_source :: "string option"
  raw_data :: "(string \<times> json) list option"
  suggestions :: "string list option"
  error_messages :: "json list option"

definition first_data_source :: "QuestionIntent \<Rightarrow> string option" where
  "first_data_source intent =
     (case data_sources intent of [] \<Rightarrow> None | s # ss \<Rightarrow> Some (DataSource_value s))"

definition handle_empty_data :: "string \<Rightarrow> QuestionIntent \<Rightarrow> explanation" where
  \<open>handle_empty_data question intent =
     \<lparr>answer = ''I couldn't find any data to answer your question: "'' @ question
        @ ''". This could mean there's no matching data for the specified criteria, or the time period you're asking about doesn't have any activity.'',
      confidence = ''low'', query_used = None, data_source = first_data_source intent,
      raw_data = None,
      suggestions = Some [''Try a broader time range'',
                          ''Check if your store has data for this metric'',
                          ''Verify the product or category name''],
      error_messages = None\<rparr>\<close>

text \<open>
  \<^verbatim>\<open>e.get("message", str(e))\<close> for one upstream error: \<^verbatim>\<open>get\<close> needs a dict. \<open>py_str\<close> is
  Python's \<^verbatim>\<open>str\<close>.
\<close>

fun error_message :: "(json \<Rightarrow> string) \<Rightarrow> json \<Rightarrow> py_error + json" where
  "error_message py_str (JObj d) = Inr (dict_get_default d ''message'' (JStr (py_str (JObj d))))"
| "error_message py_str v = Inl AttributeError"

definition handle_error_data ::
  "(json \<Rightarrow> string) \<Rightarrow> string \<Rightarrow> (string \<times> json) list \<Rightarrow> py_error + explanation" where
  "handle_error_data py_str question data =
     (case py_iter (dict_get_default data ''errors'' (JList [])) of
        Inl e \<Rightarrow> Inl e
      | Inr es \<Rightarrow>
          (case map_raising (error_message py_str) es of
             Inl e \<Rightarrow> Inl e
           | Inr msgs \<Rightarrow>
               Inr \<lparr>answer = ''I encountered an issue while trying to answer your question. Please try rephrasing your question or asking about a different metric.'',
                    confidence = ''low'', query_used = None, data_source = None,
                    raw_data = None, suggestions = None, error_messages = Some msgs\<rparr>))"

subsection \<open>Summary statistics (ResultExplainer._generate_summary)\<close>

text \<open>
  The float operations of Python that the summary uses, as parameters: \<^verbatim>\<open>float(s)\<close> on
  a string (\<open>None\<close> where it raises \<^verbatim>\<open>ValueError\<close>), \<^verbatim>\<open>float(n)\<close> on an integer (\<open>None\<close>
  where it raises \<^verbatim>\<open>OverflowError\<close>, the integer being beyond the range of a double),
  the built-in \<^verbatim>\<open>sum\<close> on a list of floats, and the division of a float by a length.
\<close>

record float_ops =
  float_of_str :: "string \<Rightarrow> pyfloat option"
  float_of_int :: "int \<Rightarrow> pyfloat option"
  float_sum :: "pyfloat list \<Rightarrow> pyfloat"
  float_div :: "pyfloat \<Rightarrow> nat \<Rightarrow> pyfloat"

text \<open>\<^verbatim>\<open>float(v)\<close>.\<close>

fun py_float :: "float_ops \<Rightarrow> json \<Rightarrow> py_error + pyfloat" where
  "py_float ops JNull = Inl TypeError"
| "py_float ops (JBool b) = Inr (Finite (if b then 1 else 0))"
| "py_float ops (JInt i) =
     (case float_of_int ops i of Some f \<Rightarrow> Inr f | None \<Rightarrow> Inl OverflowError)"
| "py_float ops (JFloat f) = Inr f"
| "py_float ops (JStr s) =
     (case float_of_str ops s of Some f \<Rightarrow> Inr f | None \<Rightarrow> Inl ValueError)"
| "py_float ops (JList xs) = Inl TypeError"
| "py_float ops (JObj d) = Inl TypeError"

text \<open>
  The comparison \<^verbatim>\<open>a < b\<close> of two floats, which is exact: every comparison with NaN is
  false. The built-in \<^verbatim>\<open>max\<close> keeps its current value unless the next one is greater,
  \<^verbatim>\<open>min\<close> unless the next one is less; both start from the first value of the list.
\<close>

fun float_less :: "pyfloat \<Rightarrow> pyfloat \<Rightarrow> bool" where
  "float_less NaN b = False"
| "float_less a NaN = False"
| "float_less (Finite a) (Finite b) = (a < b)"
| "float_less (Finite a) PosInf = True"
| "float_less (Finite a) NegInf = False"
| "float_less PosInf b = False"
| "float_less NegInf NegInf = False"
| "float_less NegInf b = True"

definition max_of :: "pyfloat \<Rightarrow> pyfloat list \<Rightarrow> pyfloat" where
  "max_of v vs = fold (\<lambda>x m. if float_less m x then x else m) vs v"

definition min_of :: "pyfloat \<Rightarrow> pyfloat list \<Rightarrow> pyfloat" where
  "min_of v vs = fold (\<lambda>x m. if float_less x m then x else m) vs v"

text \<open>
  \<^verbatim>\<open>[float(row[i]) for row in rows if row[i] is not None]\<close>: row by row, \<^verbatim>\<open>row[i]\<close>
  raises \<^verbatim>\<open>IndexError\<close> on a short row, a None cell is skipped, and the first exception
  ends the comprehension.
\<close>

fun column_values :: "float_ops \<Rightarrow> nat \<Rightarrow> json list list \<Rightarrow> py_error + pyfloat list" where
  "column_values ops i [] = Inr []"
| "column_values ops i (row # rows) =
     (if length row \<le> i then Inl IndexError
      else if row ! i = JNull then column_values ops i rows
      else
        case py_float ops (row ! i) of
          Inl e \<Rightarrow> Inl e
        | Inr v \<Rightarrow>
            (case column_values ops i rows of
               Inl e \<Rightarrow> Inl e
             | Inr vs \<Rightarrow> Inr (v # vs)))"

definition metric_keywords :: "string list" where
  "metric_keywords = [''revenue'', ''sales'', ''total'', ''quantity'', ''units'', ''sold'']"

definition is_metric_column :: "string \<Rightarrow> bool" where
  "is_metric_column col = list_ex (\<lambda>metric. contains metric (lower col)) metric_keywords"

text \<open>
  The body of the loop over \<^verbatim>\<open>enumerate(columns)\<close>. The \<^verbatim>\<open>try\<close> encloses the whole
  comprehension: \<^verbatim>\<open>ValueError\<close> and \<^verbatim>\<open>TypeError\<close> leave the summary as it was, any other
  exception (\<^verbatim>\<open>IndexError\<close>, \<^verbatim>\<open>OverflowError\<close>) leaves the function.
\<close>

definition summarise_column ::
  "float_ops \<Rightarrow> json list list \<Rightarrow> nat \<Rightarrow> string \<Rightarrow> (string \<times> json) list
     \<Rightarrow> py_error + (string \<times> json) list" where
  "summarise_column ops rows i col summary =
     (if is_metric_column col then
        (case column_values ops i rows of
           Inl e \<Rightarrow> if e = ValueError \<or> e = TypeError then Inr summary else Inl e
         | Inr [] \<Rightarrow> Inr summary
         | Inr (v # vs) \<Rightarrow>
             Inr (dict_set
                   (dict_set
                     (dict_set
                       (dict_set summary (col @ ''_total'') (JFloat (float_sum ops (v # vs))))
                       (col @ ''_average'')
                       (JFloat (float_div ops (float_sum ops (v # vs)) (length (v # vs)))))
                     (col @ ''_max'') (JFloat (max_of v vs)))
                   (col @ ''_min'') (JFloat (min_of v vs))))
      else Inr summary)"

fun summary_loop ::
  "float_ops \<Rightarrow> json list list \<Rightarrow> nat \<Rightarrow> string list \<Rightarrow> (string \<times> json) list
     \<Rightarrow> py_error + (string \<times> json) list" where
  "summary_loop ops rows i [] summary = Inr summary"
| "summary_loop ops rows i (col # cols) summary =
     (case summarise_column ops rows i col summary of
        Inl e \<Rightarrow> Inl e
      | Inr summary' \<Rightarrow> summary_loop ops rows (Suc i) cols summary')"

definition generate_summary ::
  "float_ops \<Rightarrow> string list \<Rightarrow> json list list \<Rightarrow> QuestionIntent
     \<Rightarrow> py_error + (string \<times> json) list" where
  "generate_summary ops columns rows intent =
     summary_loop ops rows 0 columns
       [(''total_rows'', JInt (int (length rows))), (''columns'', JList (map JStr columns))]"

subsection \<open>Confidence (ResultExplainer._calculate_confidence)\<close>

text \<open>
  The processed data that \<^verbatim>\<open>_process_data\<close> builds: the keys \<^verbatim>\<open>raw\<close>, \<^verbatim>\<open>summary\<close> and
  \<^verbatim>\<open>insights\<close> always, \<^verbatim>\<open>table\<close> for a tabular payload, and one list of nodes for each
  of \<^verbatim>\<open>orders\<close>, \<^verbatim>\<open>products\<close>, \<^verbatim>\<open>customers\<close>, \<^verbatim>\<open>inventoryItems\<close> that a keyed payload
  has. An absent key is \<open>None\<close>. The table has the keys \<^verbatim>\<open>columns\<close>, \<^verbatim>\<open>rows\<close> (the fields
  \<open>table_columns\<close> and \<open>table_rows\<close>) and \<^verbatim>\<open>row_count\<close>.
\<close>

record table_view =
  table_columns :: "string list"
  table_rows :: "json list list"
  row_count :: nat

record processed_data =
  raw :: json
  summary :: "(string \<times> json) list"
  insights :: "json list"
  table :: "table_view option"
  orders :: "json list option"
  products :: "json list option"
  customers :: "json list option"
  inventoryItems :: "json list option"

text \<open>\<^verbatim>\<open>processed_data.get("table", {}).get("row_count", 0)\<close>.\<close>

definition table_row_count :: "processed_data \<Rightarrow> nat" where
  "table_row_count pd = (case table pd of None \<Rightarrow> 0 | Some t \<Rightarrow> row_count t)"

text \<open>\<^verbatim>\<open>processed_data.get(k)\<close> in a condition: the key is present and its list non-empty.\<close>

definition nonempty_collection :: "json list option \<Rightarrow> bool" where
  "nonempty_collection c = (case c of None \<Rightarrow> False | Some xs \<Rightarrow> xs \<noteq> [])"

definition confidence_score :: "processed_data \<Rightarrow> QuestionIntent \<Rightarrow> int" where
  "confidence_score pd intent =
     (let score0 = 0;
          score1 = (if table_row_count pd > 0 then score0 + 3
                    else if list_ex nonempty_collection [orders pd, products pd, customers pd]
                    then score0 + 2 else score0);
          row_count = table_row_count pd;
          score2 = (if row_count \<ge> 30 then score1 + 2
                    else if row_count \<ge> 7 then score1 + 1 else score1);
          score3 = (if length (summary pd) \<ge> 3 then score2 + 1 else score2);
          score4 = (if List.member [''inventory_forecast'', ''sales_forecast'']
                         (primary_intent intent)
                    then score3 - 1 else score3)
      in score4)"

definition calculate_confidence :: "processed_data \<Rightarrow> QuestionIntent \<Rightarrow> string" where
  "calculate_confidence pd intent =
     (let score = confidence_score pd intent in
      if score \<ge> 5 then ''high'' else if score \<ge> 3 then ''medium'' else ''low'')"

section \<open>A scripted stand-in for the external services\<close>

text \<open>
  To run the model on concrete inputs: the external state is the list of the text
  completions still to come, each text call takes the next one (and raises when none
  is left); a structured call, a ShopifyQL call and a GraphQL call each return a fixed
  value.
\<close>

definition scripted :: "json \<Rightarrow> json \<Rightarrow> json \<Rightarrow> (string list) services" where
  "scripted structured tabular keyed =
     \<lparr>llm_text = (\<lambda>prompt temperature st.
                    case st of [] \<Rightarrow> (Inl UpstreamError, []) | r # rs \<Rightarrow> (Inr r, rs)),
      llm_json = (\<lambda>prompt temperature st. (Inr structured, st)),
      execute_shopifyql = (\<lambda>q st. (Inr tabular, st)),
      execute_graphql = (\<lambda>intent st. (Inr keyed, st))\<rparr>"

section \<open>The specification's wording of the checked properties\<close>

text \<open>
  The Query Validator as the specification words it: five checks in order, each with
  its message, and the result is the list of the messages of all violated checks.
\<close>

definition spec_checks :: "((string \<Rightarrow> bool) \<times> string) list" where
  "spec_checks =
     [(\<lambda>q. q \<noteq> [], ''Query is empty''),
      (\<lambda>q. contains ''FROM'' (upper q), ''Missing FROM clause''),
      (\<lambda>q. list_ex (\<lambda>t. contains t (upper q)) [''SALES'', ''ORDERS'', ''PRODUCTS'', ''CUSTOMERS''],
       ''Invalid or missing table name''),
      (\<lambda>q. contains ''SHOW'' (upper q), ''Missing SHOW clause''),
      (\<lambda>q. count_list (upper q) (CHR ''('') = count_list (upper q) (CHR '')''),
       ''Unmatched parentheses'')]"

definition violated_checks :: "string \<Rightarrow> string list" where
  "violated_checks q = map snd (filter (\<lambda>c. \<not> fst c q) spec_checks)"

text \<open>
  Confidence as the specification words it, a function of the row count, the number of
  summary fields, the presence of keyed data and the kind of goal.
\<close>

definition spec_confidence :: "nat \<Rightarrow> nat \<Rightarrow> bool \<Rightarrow> bool \<Rightarrow> string" where
  "spec_confidence n_rows n_fields has_keyed_data is_forecast =
     (let score = (0::int)
            + (if n_rows \<ge> 1 then 3 else if has_keyed_data then 2 else 0)
            + (if n_rows \<ge> 30 then 2 else if n_rows \<ge> 7 then 1 else 0)
            + (if n_fields \<ge> 3 then 1 else 0)
            - (if is_forecast then 1 else 0)
      in if score \<ge> 5 then ''high'' else if score \<ge> 3 then ''medium'' else ''low'')"

definition has_keyed_data :: "processed_data \<Rightarrow> bool" where
  "has_keyed_data pd =
     (nonempty_collection (orders pd) \<or> nonempty_collection (products pd)
      \<or> nonempty_collection (customers pd))"

definition is_forecast_goal :: "QuestionIntent \<Rightarrow> bool" where
  "is_forecast_goal intent =
     (primary_intent intent = ''inventory_forecast'' \<or> primary_intent intent = ''sales_forecast'')"

text \<open>
  The message that an upstream error object surfaces: its \<^verbatim>\<open>message\<close> field, or the
  printed object when it has none.
\<close>

fun is_object :: "json \<Rightarrow> bool" where
  "is_object (JObj d) = True"
| "is_object v = False"

definition upstream_message :: "(json \<Rightarrow> string) \<Rightarrow> json \<Rightarrow> json" where
  "upstream_message py_str e =
     (case e of
        JObj d \<Rightarrow> (case map_of d ''message'' of Some m \<Rightarrow> m | None \<Rightarrow> JStr (py_str e))
      | _ \<Rightarrow> JNull)"

text \<open>
  A structured completion whose fields, where present, validate: the goal is a string;
  the data sources iterate to names of the five categories (a list of such names, and
  also a dict with such keys or an empty string); the time window and the aggregation
  are a string or null; the metrics are a list of strings; the filters are an object.
\<close>

definition is_category :: "json \<Rightarrow> bool" where
  "is_category x =
     List.member [JStr ''orders'', JStr ''products'', JStr ''inventory'', JStr ''customers'',
                  JStr ''sales''] x"

definition categories_ok :: "json \<Rightarrow> bool" where
  "categories_ok v = (case py_iter v of Inl e \<Rightarrow> False | Inr xs \<Rightarrow> list_all is_category xs)"

definition field_ok :: "(string \<times> json) list \<Rightarrow> string \<Rightarrow> (json \<Rightarrow> bool) \<Rightarrow> bool" where
  "field_ok d k ok = (case map_of d k of None \<Rightarrow> True | Some v \<Rightarrow> ok v)"

definition fields_validate :: "(string \<times> json) list \<Rightarrow> bool" where
  "fields_validate d =
     (field_ok d ''primary_intent'' (\<lambda>v. as_str v \<noteq> None)
      \<and> field_ok d ''data_sources'' categories_ok
      \<and> field_ok d ''time_period'' (\<lambda>v. as_optional_str v \<noteq> None)
      \<and> field_ok d ''metrics'' (\<lambda>v. as_str_list v \<noteq> None)
      \<and> field_ok d ''filters'' (\<lambda>v. as_dict v \<noteq> None)
      \<and> field_ok d ''aggregation'' (\<lambda>v. as_optional_str v \<noteq> None))"

text \<open>
  The numeric cells of column \<open>i\<close> in two readings. \<open>parseable_values\<close> is the
  specification's: the values of the cells that \<^verbatim>\<open>float\<close> accepts, every other cell
  dropped. \<open>numeric_cells\<close> is the reading that the comprehension under its \<^verbatim>\<open>try\<close>
  implements: the values of the non-null cells when every one of them is accepted, and
  \<open>None\<close> as soon as one is not.
\<close>

definition float_value :: "float_ops \<Rightarrow> json \<Rightarrow> pyfloat option" where
  "float_value ops c = (case py_float ops c of Inl e \<Rightarrow> None | Inr v \<Rightarrow> Some v)"

definition parseable_values :: "float_ops \<Rightarrow> nat \<Rightarrow> json list list \<Rightarrow> pyfloat list" where
  "parseable_values ops i rows =
     concat (map (\<lambda>row. case float_value ops (row ! i) of None \<Rightarrow> [] | Some v \<Rightarrow> [v]) rows)"

fun all_values :: "pyfloat option list \<Rightarrow> pyfloat list option" where
  "all_values [] = Some []"
| "all_values (None # xs) = None"
| "all_values (Some v # xs) = (case all_values xs of None \<Rightarrow> None | Some vs \<Rightarrow> Some (v # vs))"

definition numeric_cells :: "float_ops \<Rightarrow> nat \<Rightarrow> json list list \<Rightarrow> pyfloat list option" where
  "numeric_cells ops i rows =
     all_values (map (float_value ops)
                   (filter (\<lambda>c. c \<noteq> JNull) (map (\<lambda>row. row ! i) rows)))"

text \<open>
  No cell of the table is an integer beyond the range of a float, on which \<^verbatim>\<open>float\<close>
  raises \<^verbatim>\<open>OverflowError\<close>.
\<close>

definition no_overflow :: "float_ops \<Rightarrow> json list list \<Rightarrow> bool" where
  "no_overflow ops rows =
     list_all (\<lambda>row. list_all (\<lambda>c. py_float ops c \<noteq> Inl OverflowError) row) rows"

text \<open>
  The four aggregate fields of a column over the values \<open>v # vs\<close>: Python's sum, the
  sum divided by the number of values, and Python's maximum and minimum.
\<close>

definition aggregate_fields ::
  "float_ops \<Rightarrow> string \<Rightarrow> pyfloat \<Rightarrow> pyfloat list \<Rightarrow> (string \<times> json) list" where
  "aggregate_fields ops col v vs =
     [(col @ ''_total'', JFloat (float_sum ops (v # vs))),
      (col @ ''_average'', JFloat (float_div ops (float_sum ops (v # vs)) (length (v # vs)))),
      (col @ ''_max'', JFloat (max_of v vs)),
      (col @ ''_min'', JFloat (min_of v vs))]"

text \<open>
  The fields that column \<open>i\<close> named \<open>col\<close> contributes to the summary, and those of the
  columns \<open>cols\<close> that start at index \<open>i\<close>.
\<close>

definition column_aggregates ::
  "float_ops \<Rightarrow> json list list \<Rightarrow> nat \<Rightarrow> string \<Rightarrow> (string \<times> json) list" where
  "column_aggregates ops rows i col =
     (if is_metric_column col then
        (case numeric_cells ops i rows of
           None \<Rightarrow> []
         | Some [] \<Rightarrow> []
         | Some (v # vs) \<Rightarrow> aggregate_fields ops col v vs)
      else [])"

fun table_aggregates ::
  "float_ops \<Rightarrow> json list list \<Rightarrow> nat \<Rightarrow> string list \<Rightarrow> (string \<times> json) list" where
  "table_aggregates ops rows i [] = []"
| "table_aggregates ops rows i (col # cols) =
     column_aggregates ops rows i col @ table_aggregates ops rows (Suc i) cols"

text \<open>
  A summary has the four aggregates of a column over the values \<open>v # vs\<close>, or has none
  of the four fields.
\<close>

definition has_aggregates ::
  "float_ops \<Rightarrow> (string \<times> json) list \<Rightarrow> string \<Rightarrow> pyfloat \<Rightarrow> pyfloat list \<Rightarrow> bool" where
  "has_aggregates ops s col v vs =
     (map_of s (col @ ''_total'') = Some (JFloat (float_sum ops (v # vs)))
      \<and> map_of s (col @ ''_average'')
          = Some (JFloat (float_div ops (float_sum ops (v # vs)) (length (v # vs))))
      \<and> map_of s (col @ ''_max'') = Some (JFloat (max_of v vs))
      \<and> map_of s (col @ ''_min'') = Some (JFloat (min_of v vs)))"

definition no_aggregates :: "(string \<times> json) list \<Rightarrow> string \<Rightarrow> bool" where
  "no_aggregates s col =
     (map_of s (col @ ''_total'') = None \<and> map_of s (col @ ''_average'') = None
      \<and> map_of s (col @ ''_max'') = None \<and> map_of s (col @ ''_min'') = None)"

section \<open>Example inputs\<close>

text \<open>An intent as the offline provider answers for a question about top sellers.\<close>

definition sales_intent :: QuestionIntent where
  "sales_intent =
     \<lparr>primary_intent = ''sales_analysis'', data_sources = [ORDERS, PRODUCTS],
      time_period = Some ''last 7 days'', metrics = [''units_sold'', ''revenue''],
      filters = [], aggregation = Some ''sum''\<rparr>"

text \<open>
  Processed data of a tabular payload with 35 rows and, as in the example of the
  specification, four summary fields (the raw payload, which the confidence does not
  read, is left out).
\<close>

definition table_example :: processed_data where
  "table_example =
     \<lparr>raw = JNull,
      summary = [(''total_rows'', JInt 35), (''columns'', JList [JStr ''day'', JStr ''n'']),
                 (''a'', JFloat (Finite 1)), (''b'', JFloat (Finite 2))],
      insights = [],
      table = Some \<lparr>table_columns = [''day'', ''n''],
                     table_rows = replicate 35 [JStr ''2024-01-01'', JInt 1], row_count = 35\<rparr>,
      orders = None, products = None, customers = None, inventoryItems = None\<rparr>"

text \<open>
  A keyed payload, the answer of the GraphQL fetch: one order and, when \<open>full\<close> holds,
  one product and one customer as well. \<open>keyed_example\<close> is the processed data that
  \<^verbatim>\<open>_process_data\<close> builds from it: no table, and for each collection of the payload the
  list of its nodes and one \<^verbatim>\<open>_count\<close> field in the summary.
\<close>

definition keyed_payload :: "bool \<Rightarrow> json" where
  "keyed_payload full =
     JObj ([(''orders'',
             JObj [(''edges'',
                    JList [JObj [(''node'', JObj [(''id'', JStr ''gid://shopify/Order/1'')])]])])]
           @ (if full
              then [(''products'',
                     JObj [(''edges'',
                            JList [JObj [(''node'',
                                         JObj [(''id'', JStr ''gid://shopify/Product/1'')])]])]),
                    (''customers'',
                     JObj [(''edges'',
                            JList [JObj [(''node'',
                                         JObj [(''id'', JStr ''gid://shopify/Customer/1'')])]])])]
              else []))"

definition keyed_example :: "bool \<Rightarrow> processed_data" where
  "keyed_example full =
     \<lparr>raw = keyed_payload full,
      summary = (if full
                 then [(''orders_count'', JInt 1), (''products_count'', JInt 1),
                       (''customers_count'', JInt 1)]
                 else [(''orders_count'', JInt 1)]),
      insights = [],
      table = None,
      orders = Some [JObj [(''id'', JStr ''gid://shopify/Order/1'')]],
      products = (if full then Some [JObj [(''id'', JStr ''gid://shopify/Product/1'')]]
                  else None),
      customers = (if full then Some [JObj [(''id'', JStr ''gid://shopify/Customer/1'')]]
                   else None),
      inventoryItems = None\<rparr>"

text \<open>
  A stand-in for Python's \<^verbatim>\<open>str\<close> on JSON values, where the printed text does not
  matter: every value prints as the same placeholder.
\<close>

definition sample_str :: "json \<Rightarrow> string" where
  "sample_str v = ''<value>''"

text \<open>An intent whose goal is one of the entity-detail goals.\<close>

definition details_intent :: QuestionIntent where
  "details_intent =
     \<lparr>primary_intent = ''customer_details'', data_sources = [CUSTOMERS],
      time_period = None, metrics = [], filters = [], aggregation = None\<rparr>"

text \<open>A world in which the text completions \<open>replies\<close> are still to come.\<close>

definition start :: "string list \<Rightarrow> (string list) world" where
  "start replies = \<lparr>ext = replies, trace = []\<rparr>"

text \<open>
  A stand-in for the float operations, right on the values of the examples: the string
  \<^verbatim>\<open>"10.5"\<close> is a number and every other string raises \<^verbatim>\<open>ValueError\<close>; integers up to
  \<open>2 ^ 53\<close> convert exactly and larger ones are taken as out of range; sums and
  quotients are exact (those of the examples are doubles).
\<close>

fun finite_value :: "pyfloat \<Rightarrow> real" where
  "finite_value (Finite r) = r"
| "finite_value f = 0"

definition sample_ops :: float_ops where
  "sample_ops =
     \<lparr>float_of_str = (\<lambda>s. if s = ''10.5'' then Some (Finite 10.5) else None),
      float_of_int = (\<lambda>i. if \<bar>i\<bar> \<le> 2 ^ 53 then Some (Finite (of_int i)) else None),
      float_sum = (\<lambda>vs. Finite (sum_list (map finite_value vs))),
      float_div = (\<lambda>f n. Finite (finite_value f / real n))\<rparr>"

text \<open>Three rows of a table with the columns \<open>day\<close> and \<open>total_sales\<close>.\<close>

definition sales_rows :: "json \<Rightarrow> json list list" where
  "sales_rows second =
     [[JStr ''2024-01-01'', JFloat (Finite 10)], [JStr ''2024-01-02'', second],
      [JStr ''2024-01-03'', JFloat (Finite 20)]]"

section \<open>Properties of the Plan Builder\<close>

lemma create_plan_cases:
  "create_plan intent =
     (if List.member (data_sources intent) INVENTORY then [fetch_inventory_step] else [])
     @ (if List.member (data_sources intent) ORDERS \<or> List.member (data_sources intent) SALES
        then [fetch_sales_data_step] else [])
     @ (if List.member (data_sources intent) CUSTOMERS then [fetch_customer_data_step] else [])
     @ (if List.member (data_sources intent) PRODUCTS then [fetch_product_data_step] else [])
     @ [analyze_data_step]"
  unfolding create_plan_def unsorted_plan_def
  by (simp add: fetch_inventory_step_def fetch_sales_data_step_def
      fetch_customer_data_step_def fetch_product_data_step_def analyze_data_step_def)

text \<open>
  C6. For every intent the plan is non-empty, it holds exactly one step named
  \<open>analyze_data\<close>, and that step is the last element of the plan. The builder is a total
  function into plans: it has no error result.
\<close>

theorem create_plan_one_analyze_last:
  "create_plan intent \<noteq> []
   \<and> length (filter (\<lambda>s. step s = ''analyze_data'') (create_plan intent)) = 1
   \<and> last (create_plan intent) = analyze_data_step
   \<and> step (last (create_plan intent)) = ''analyze_data''"
  by (simp add: create_plan_cases fetch_inventory_step_def fetch_sales_data_step_def
      fetch_customer_data_step_def fetch_product_data_step_def analyze_data_step_def)

text \<open>
  C7. When the data categories of the intent include both inventory and orders, the plan
  starts with the \<open>fetch_inventory\<close> step followed directly by the \<open>fetch_sales_data\<close>
  step, and both have priority 1.
\<close>

theorem create_plan_inventory_before_sales:
  assumes "INVENTORY \<in> set (data_sources intent)" and "ORDERS \<in> set (data_sources intent)"
  shows "take 2 (create_plan intent) = [fetch_inventory_step, fetch_sales_data_step]
         \<and> step fetch_inventory_step = ''fetch_inventory''
         \<and> step fetch_sales_data_step = ''fetch_sales_data''
         \<and> priority fetch_inventory_step = 1 \<and> priority fetch_sales_data_step = 1"
  using assms
  by (simp add: create_plan_cases fetch_inventory_step_def fetch_sales_data_step_def)

theorem create_plan_inventory_before_sales_witness:
  "take 2 (create_plan \<lparr>primary_intent = ''inventory_forecast'',
       data_sources = [INVENTORY, ORDERS], time_period = Some ''last 30 days'',
       metrics = [''units_sold'', ''current_stock''],
       filters = [(''product_name'', JStr ''Blue T-Shirt'')], aggregation = Some ''sum''\<rparr>)
   = [fetch_inventory_step, fetch_sales_data_step]"
  using create_plan_inventory_before_sales
    [of "\<lparr>primary_intent = ''inventory_forecast'',
       data_sources = [INVENTORY, ORDERS], time_period = Some ''last 30 days'',
       metrics = [''units_sold'', ''current_stock''],
       filters = [(''product_name'', JStr ''Blue T-Shirt'')], aggregation = Some ''sum''\<rparr>"]
  by simp

section \<open>Properties of the Query Validator\<close>

text \<open>
  C4, as stated, at the empty query: the validator returns the single message
  \<open>Query is empty\<close>, although the empty text also violates the FROM, table-name and SHOW
  checks; the empty query has no SHOW clause and the SHOW message is not reported.
\<close>

theorem validate_query_empty_counterexample:
  "errors (validate_query []) \<noteq> violated_checks []
   \<and> \<not> contains ''SHOW'' (upper [])
   \<and> ''Missing SHOW clause'' \<notin> set (errors (validate_query []))"
  by (simp add: validate_query_def violated_checks_def spec_checks_def upper_def)

text \<open>
  C4, amended. The empty query yields exactly the message \<open>Query is empty\<close>. For every
  non-empty query the validator returns the messages of all violated checks, in the
  order of the checks, and the query is valid exactly when there is none; a non-empty
  query without SHOW is invalid and its errors contain \<open>Missing SHOW clause\<close>, whatever
  else it contains; a non-empty query with FROM, a known table name, SHOW and as many
  opening as closing parentheses is valid with no error.
\<close>

theorem validate_query_violations:
  "validate_query [] = \<lparr>is_valid = False, errors = [''Query is empty'']\<rparr>
   \<and> (q \<noteq> [] \<longrightarrow>
        errors (validate_query q) = violated_checks q
        \<and> is_valid (validate_query q) = (violated_checks q = [])
        \<and> (\<not> contains ''SHOW'' (upper q) \<longrightarrow>
             \<not> is_valid (validate_query q)
             \<and> ''Missing SHOW clause'' \<in> set (errors (validate_query q)))
        \<and> (contains ''FROM'' (upper q)
             \<and> list_ex (\<lambda>t. contains t (upper q))
                  [''SALES'', ''ORDERS'', ''PRODUCTS'', ''CUSTOMERS'']
             \<and> contains ''SHOW'' (upper q)
             \<and> count_list (upper q) (CHR ''('') = count_list (upper q) (CHR '')'')
             \<longrightarrow> validate_query q = \<lparr>is_valid = True, errors = []\<rparr>))"
  by (simp add: validate_query_def violated_checks_def spec_checks_def valid_tables_def Let_def)

theorem validate_query_violations_witness:
  "\<not> contains ''SHOW'' (upper ''FROM sales GROUP BY day'')
   \<and> \<not> is_valid (validate_query ''FROM sales GROUP BY day'')
   \<and> ''Missing SHOW clause'' \<in> set (errors (validate_query ''FROM sales GROUP BY day''))
   \<and> errors (validate_query ''FROM sales GROUP BY day'') = [''Missing SHOW clause'']
   \<and> validate_query ''FROM sales SHOW SUM(net_sales)'' = \<lparr>is_valid = True, errors = []\<rparr>"
proof -
  have a: "\<not> contains ''SHOW'' (upper ''FROM sales GROUP BY day'')"
    by code_simp
  have v: "violated_checks ''FROM sales GROUP BY day'' = [''Missing SHOW clause'']"
    by code_simp
  have b: "contains ''FROM'' (upper ''FROM sales SHOW SUM(net_sales)'')
     \<and> list_ex (\<lambda>t. contains t (upper ''FROM sales SHOW SUM(net_sales)''))
          [''SALES'', ''ORDERS'', ''PRODUCTS'', ''CUSTOMERS'']
     \<and> contains ''SHOW'' (upper ''FROM sales SHOW SUM(net_sales)'')
     \<and> count_list (upper ''FROM sales SHOW SUM(net_sales)'') (CHR ''('')
         = count_list (upper ''FROM sales SHOW SUM(net_sales)'') (CHR '')'')"
    by code_simp
  have n1: "''FROM sales GROUP BY day'' \<noteq> []"
    and n2: "''FROM sales SHOW SUM(net_sales)'' \<noteq> []"
    by simp_all
  from validate_query_violations [of "''FROM sales GROUP BY day''"] n1 a v
  have "\<not> is_valid (validate_query ''FROM sales GROUP BY day'')
     \<and> ''Missing SHOW clause'' \<in> set (errors (validate_query ''FROM sales GROUP BY day''))
     \<and> errors (validate_query ''FROM sales GROUP BY day'') = [''Missing SHOW clause'']"
    by metis
  moreover from validate_query_violations [of "''FROM sales SHOW SUM(net_sales)''"] n2 b
  have "validate_query ''FROM sales SHOW SUM(net_sales)'' = \<lparr>is_valid = True, errors = []\<rparr>"
    by blast
  ultimately show ?thesis using a by blast
qed

text \<open>
  C10. Each of the five templates, rendered with its default arguments, passes the
  validator with no error.
\<close>

theorem templates_pass_validation:
  "validate_query (top_selling_products 7 5) = \<lparr>is_valid = True, errors = []\<rparr>
   \<and> validate_query (daily_sales 30) = \<lparr>is_valid = True, errors = []\<rparr>
   \<and> validate_query product_inventory = \<lparr>is_valid = True, errors = []\<rparr>
   \<and> validate_query (low_stock_alert 10) = \<lparr>is_valid = True, errors = []\<rparr>
   \<and> validate_query (sales_by_product 30) = \<lparr>is_valid = True, errors = []\<rparr>"
  by code_simp

section \<open>Properties of the confidence score\<close>

text \<open>
  C1, as stated, at a keyed payload with three collections: there is no table row,
  keyed data is present and the goal is no forecast, yet the three \<^verbatim>\<open>_count\<close> fields of
  the summary add a point and the label is \<open>medium\<close>, not \<open>low\<close>.
\<close>

theorem calculate_confidence_keyed_counterexample:
  "table_row_count (keyed_example True) = 0
   \<and> has_keyed_data (keyed_example True)
   \<and> \<not> is_forecast_goal sales_intent
   \<and> calculate_confidence (keyed_example True) sales_intent = ''medium''
   \<and> calculate_confidence (keyed_example True) sales_intent \<noteq> ''low''"
  by (simp add: calculate_confidence_def confidence_score_def table_row_count_def
      has_keyed_data_def is_forecast_goal_def nonempty_collection_def keyed_example_def
      sales_intent_def)

text \<open>
  C1, amended. The label is the function of the specification applied to the row count
  of the table, the number of summary fields, the presence of a non-empty orders,
  products or customers collection, and whether the goal is a forecast. With 35 rows,
  four summary fields and no forecast goal it is \<open>high\<close>; with no row, keyed data, fewer
  than three summary fields and no forecast goal it is \<open>low\<close>.
\<close>

theorem calculate_confidence_scoring:
  "calculate_confidence pd intent
     = spec_confidence (table_row_count pd) (length (summary pd)) (has_keyed_data pd)
         (is_forecast_goal intent)
   \<and> (table_row_count pd = 35 \<and> length (summary pd) = 4 \<and> \<not> is_forecast_goal intent
        \<longrightarrow> calculate_confidence pd intent = ''high'')
   \<and> (table_row_count pd = 0 \<and> has_keyed_data pd \<and> length (summary pd) < 3
        \<and> \<not> is_forecast_goal intent
        \<longrightarrow> calculate_confidence pd intent = ''low'')"
  by (auto simp: calculate_confidence_def confidence_score_def spec_confidence_def
      has_keyed_data_def is_forecast_goal_def Let_def)

theorem calculate_confidence_scoring_witness:
  "table_row_count table_example = 35 \<and> length (summary table_example) = 4
   \<and> \<not> is_forecast_goal sales_intent
   \<and> calculate_confidence table_example sales_intent = ''high''
   \<and> table_row_count (keyed_example False) = 0 \<and> has_keyed_data (keyed_example False)
   \<and> length (summary (keyed_example False)) < 3
   \<and> calculate_confidence (keyed_example False) sales_intent = ''low''"
proof -
  have a: "table_row_count table_example = 35 \<and> length (summary table_example) = 4"
    by (simp add: table_row_count_def table_example_def)
  have b: "\<not> is_forecast_goal sales_intent"
    by (simp add: is_forecast_goal_def sales_intent_def)
  have c: "table_row_count (keyed_example False) = 0 \<and> has_keyed_data (keyed_example False)
           \<and> length (summary (keyed_example False)) < 3"
    by (simp add: table_row_count_def has_keyed_data_def nonempty_collection_def
        keyed_example_def)
  from calculate_confidence_scoring [of table_example sales_intent] a b
  have "calculate_confidence table_example sales_intent = ''high''"
    by blast
  moreover from calculate_confidence_scoring [of "keyed_example False" sales_intent] b c
  have "calculate_confidence (keyed_example False) sales_intent = ''low''"
    by blast
  ultimately show ?thesis using a b c by blast
qed

section \<open>Properties of the error path of the Result Explainer\<close>

lemma map_raising_error_message:
  "list_all is_object es \<Longrightarrow>
   map_raising (error_message py_str) es = Inr (map (upstream_message py_str) es)"
proof (induction es)
  case Nil
  then show ?case by simp
next
  case (Cons e es)
  then obtain d where "e = JObj d" by (cases e) auto
  with Cons show ?case
    by (simp add: upstream_message_def dict_get_default_def split: option.splits)
qed

text \<open>
  C9, as stated, at two error payloads that are not lists of error objects. The
  normalization puts every \<^verbatim>\<open>errors\<close> entry into the error state unchecked; on the list
  with the plain string \<^verbatim>\<open>"boom"\<close> the explainer raises \<^verbatim>\<open>AttributeError\<close> (a string has
  no \<^verbatim>\<open>get\<close>), and on a null entry it raises \<^verbatim>\<open>TypeError\<close> (None is no iterable),
  instead of returning a result of low confidence.
\<close>

theorem error_result_malformed_payload_counterexample:
  "validate_and_process_data (JObj [(''errors'', JList [JStr ''boom''])]) sales_intent
     = Inr [(''is_error'', JBool True), (''errors'', JList [JStr ''boom''])]
   \<and> handle_error_data sample_str ''What sold best?''
         [(''is_error'', JBool True), (''errors'', JList [JStr ''boom''])]
     = Inl AttributeError
   \<and> validate_and_process_data (JObj [(''errors'', JNull)]) sales_intent
     = Inr [(''is_error'', JBool True), (''errors'', JNull)]
   \<and> handle_error_data sample_str ''What sold best?''
         [(''is_error'', JBool True), (''errors'', JNull)]
     = Inl TypeError"
  by (simp add: validate_and_process_data_def handle_error_data_def dict_get_default_def)

text \<open>
  C9, amended. An upstream payload whose \<^verbatim>\<open>errors\<close> entry iterates to error objects (a
  list of objects, in particular) is normalized into the error state, and for that
  normalized result the explainer returns confidence \<open>low\<close> and an error list with one
  entry per upstream error, in order: the message of the error, or the printed error
  when it has no message.
\<close>

theorem error_result_surfaces_messages:
  assumes "map_of upstream ''errors'' = Some payload" and "py_iter payload = Inr es"
    and "list_all is_object es"
  shows "\<exists>n r. validate_and_process_data (JObj upstream) intent = Inr n
          \<and> dict_get n ''is_error'' = Some (JBool True) \<and> dict_get n ''is_empty'' = None
          \<and> handle_error_data py_str question n = Inr r
          \<and> confidence r = ''low''
          \<and> error_messages r = Some (map (upstream_message py_str) es)
          \<and> length (map (upstream_message py_str) es) = length es"
proof -
  from assms(1) have ne: "upstream \<noteq> []" by auto
  from assms(1) have mem: "''errors'' \<in> fst ` set upstream"
    by (metis map_of_eq_None_iff option.distinct(1))
  have v: "validate_and_process_data (JObj upstream) intent
             = Inr [(''is_error'', JBool True), (''errors'', payload)]"
    using ne mem assms(1) by (simp add: validate_and_process_data_def)
  have h: "handle_error_data py_str question [(''is_error'', JBool True), (''errors'', payload)]
      = Inr \<lparr>answer = ''I encountered an issue while trying to answer your question. Please try rephrasing your question or asking about a different metric.'',
              confidence = ''low'', query_used = None, data_source = None,
              raw_data = None, suggestions = None,
              error_messages = Some (map (upstream_message py_str) es)\<rparr>"
    using map_raising_error_message [OF assms(3)] assms(2)
    by (simp add: handle_error_data_def dict_get_default_def)
  show ?thesis
    by (simp add: v h dict_get_def)
qed

theorem error_result_surfaces_messages_witness:
  "\<exists>n r. validate_and_process_data
            (JObj [(''errors'', JList [JObj [(''message'', JStr ''HTTP 500'')],
                                       JObj [(''code'', JStr ''E1'')]])])
            sales_intent = Inr n
     \<and> handle_error_data sample_str ''What sold best?'' n = Inr r
     \<and> confidence r = ''low''
     \<and> error_messages r = Some [JStr ''HTTP 500'', JStr ''<value>'']"
proof -
  let ?es = "[JObj [(''message'', JStr ''HTTP 500'')], JObj [(''code'', JStr ''E1'')]]"
  have a: "map_of [(''errors'', JList ?es)] ''errors'' = Some (JList ?es)"
    by simp
  have i: "py_iter (JList ?es) = Inr ?es"
    by simp
  have b: "list_all is_object ?es"
    by simp
  have m: "map (upstream_message sample_str) ?es = [JStr ''HTTP 500'', JStr ''<value>'']"
    by (simp add: upstream_message_def sample_str_def)
  from error_result_surfaces_messages [OF a i b, of sales_intent sample_str "''What sold best?''"]
  show ?thesis unfolding m by blast
qed

section \<open>Properties of the routing between generation and execution\<close>

lemma attempt_graphql:
  assumes "query gq = None \<or> query_type gq \<noteq> ''shopifyql'' \<or> query gq = Some []"
  shows "trace (snd (execute_query_attempt sv gq intent w)) = trace w @ [GraphQLCall intent]"
  using assms
  by (auto simp: execute_query_attempt_def call_graphql_def
      split: option.splits prod.splits sum.splits)

lemma attempt_shopifyql:
  assumes "query gq = Some q" and "query_type gq = ''shopifyql''" and "q \<noteq> []"
  shows "trace (snd (execute_query_attempt sv gq intent w)) = trace w @ [ShopifyQLCall q]"
  using assms
  by (auto simp: execute_query_attempt_def call_shopifyql_def
      split: option.splits prod.splits sum.splits)

lemma attempts_trace:
  assumes "\<And>w. trace (snd (execute_query_attempt sv gq intent w)) = trace w @ [ev]"
  shows "\<exists>n. n \<le> k \<and> (0 < k \<longrightarrow> 0 < n)
           \<and> trace (snd (execute_query_attempts k sv gq intent w)) = trace w @ replicate n ev"
proof (induction k arbitrary: w)
  case 0
  show ?case by simp
next
  case (Suc k)
  obtain r w' where a: "execute_query_attempt sv gq intent w = (r, w')"
    by (cases "execute_query_attempt sv gq intent w")
  with assms [of w] have t: "trace w' = trace w @ [ev]" by simp
  show ?case
  proof (cases r)
    case (Inl e)
    from Suc.IH [of w'] obtain n where n: "n \<le> k"
      "trace (snd (execute_query_attempts k sv gq intent w')) = trace w' @ replicate n ev"
      by blast
    have "trace (snd (execute_query_attempts (Suc k) sv gq intent w))
            = trace w @ replicate (Suc n) ev"
      using a Inl n t by (simp add: replicate_append_same)
    with n(1) show ?thesis by (metis Suc_le_mono zero_less_Suc)
  next
    case (Inr d)
    have "trace (snd (execute_query_attempts (Suc k) sv gq intent w))
            = trace w @ replicate (Suc 0) ev"
      using a Inr t by simp
    then show ?thesis by (metis Suc_le_mono zero_le zero_less_Suc)
  qed
qed

lemma execute_query_trace:
  assumes "\<And>w. trace (snd (execute_query_attempt sv gq intent w)) = trace w @ [ev]"
  shows "\<exists>n. 1 \<le> n \<and> n \<le> MAX_RETRIES
           \<and> trace (snd (execute_query sv gq intent w)) = trace w @ replicate n ev"
proof -
  from attempts_trace [OF assms, of MAX_RETRIES w]
  obtain n where "n \<le> MAX_RETRIES" "0 < MAX_RETRIES \<longrightarrow> 0 < n"
    "trace (snd (execute_query sv gq intent w)) = trace w @ replicate n ev"
    by (auto simp: execute_query_def)
  moreover have "0 < MAX_RETRIES" by (simp add: MAX_RETRIES_def)
  ultimately show ?thesis by (metis One_nat_def Suc_leI)
qed

lemma generate_shape:
  assumes "generate py_str sv intent plan w = (Inr gq, w')"
  shows "gq = graphql_result \<or> (\<exists>q. gq = shopifyql_result q (validate_query q) intent)"
  using assms
  by (auto simp: generate_def Let_def split: if_splits prod.splits sum.splits)

text \<open>
  C8. Every result that \<^verbatim>\<open>generate\<close> returns has the type \<open>graphql\<close> (the fallback) or
  \<open>shopifyql\<close>. A fallback result has no query text, and the execution step run on it
  calls the GraphQL fetch only: between one and \<open>MAX_RETRIES\<close> calls, all with the
  intent. A \<open>shopifyql\<close> result has a query text, and when the text is non-empty the
  execution step calls the ShopifyQL endpoint only, with that text.
\<close>

theorem fallback_query_routing:
  "generate py_str sv intent plan w = (Inr gq, w') \<longrightarrow>
     (query_type gq = ''graphql'' \<or> query_type gq = ''shopifyql'')
     \<and> (query_type gq = ''graphql'' \<longrightarrow>
          query gq = None
          \<and> (\<exists>n. 1 \<le> n \<and> n \<le> MAX_RETRIES
                \<and> trace (snd (execute_query sv gq intent w'))
                    = trace w' @ replicate n (GraphQLCall intent)))
     \<and> (query_type gq = ''shopifyql'' \<longrightarrow>
          (\<exists>q. query gq = Some q
             \<and> (q \<noteq> [] \<longrightarrow>
                  (\<exists>n. 1 \<le> n \<and> n \<le> MAX_RETRIES
                     \<and> trace (snd (execute_query sv gq intent w'))
                         = trace w' @ replicate n (ShopifyQLCall q)))))"
proof
  assume g: "generate py_str sv intent plan w = (Inr gq, w')"
  from generate_shape [OF g] consider
    (fallback) "gq = graphql_result"
    | (primary) q where "gq = shopifyql_result q (validate_query q) intent"
    by blast
  then show "(query_type gq = ''graphql'' \<or> query_type gq = ''shopifyql'')
     \<and> (query_type gq = ''graphql'' \<longrightarrow>
          query gq = None
          \<and> (\<exists>n. 1 \<le> n \<and> n \<le> MAX_RETRIES
                \<and> trace (snd (execute_query sv gq intent w'))
                    = trace w' @ replicate n (GraphQLCall intent)))
     \<and> (query_type gq = ''shopifyql'' \<longrightarrow>
          (\<exists>q. query gq = Some q
             \<and> (q \<noteq> [] \<longrightarrow>
                  (\<exists>n. 1 \<le> n \<and> n \<le> MAX_RETRIES
                     \<and> trace (snd (execute_query sv gq intent w'))
                         = trace w' @ replicate n (ShopifyQLCall q)))))"
  proof cases
    case fallback
    have q: "query gq = None" "query_type gq = ''graphql''"
      using fallback by (simp_all add: graphql_result_def)
    have "\<And>w. trace (snd (execute_query_attempt sv gq intent w))
             = trace w @ [GraphQLCall intent]"
      using q by (intro attempt_graphql) simp
    from execute_query_trace [OF this, of w'] q show ?thesis by simp
  next
    case primary
    have q: "query gq = Some q" "query_type gq = ''shopifyql''"
      using primary by (simp_all add: shopifyql_result_def)
    have "q \<noteq> [] \<longrightarrow> (\<exists>n. 1 \<le> n \<and> n \<le> MAX_RETRIES
                     \<and> trace (snd (execute_query sv gq intent w'))
                         = trace w' @ replicate n (ShopifyQLCall q))"
    proof
      assume ne: "q \<noteq> []"
      have "\<And>w. trace (snd (execute_query_attempt sv gq intent w))
               = trace w @ [ShopifyQLCall q]"
        using q ne by (intro attempt_shopifyql) simp_all
      from execute_query_trace [OF this, of w']
      show "\<exists>n. 1 \<le> n \<and> n \<le> MAX_RETRIES
                \<and> trace (snd (execute_query sv gq intent w'))
                    = trace w' @ replicate n (ShopifyQLCall q)" .
    qed
    with q show ?thesis by simp
  qed
qed

theorem fallback_query_routing_witness:
  "generate sample_str (scripted JNull JNull (JObj [])) details_intent [] (start [])
     = (Inr graphql_result, start [])
   \<and> query_type graphql_result = ''graphql'' \<and> query graphql_result = None
   \<and> (\<exists>n. 1 \<le> n \<and> n \<le> MAX_RETRIES
         \<and> trace (snd (execute_query (scripted JNull JNull (JObj [])) graphql_result
                          details_intent (start [])))
             = trace (start []) @ replicate n (GraphQLCall details_intent))"
proof -
  have g: "generate sample_str (scripted JNull JNull (JObj [])) details_intent [] (start [])
             = (Inr graphql_result, start [])"
    by (simp add: generate_def should_use_graphql_def details_intent_def)
  have t: "query_type graphql_result = ''graphql''"
    by (simp add: graphql_result_def)
  from fallback_query_routing
         [of sample_str "scripted JNull JNull (JObj [])" details_intent "[]" "start []"
             graphql_result "start []"] g t
  show ?thesis by blast
qed

section \<open>Properties of the Intent Extractor\<close>

lemma map_raising_categories:
  "list_all is_category xs \<Longrightarrow> \<exists>ds. map_raising DataSource_of xs = Inr ds"
proof (induction xs)
  case Nil
  then show ?case by simp
next
  case (Cons x xs)
  then obtain ds where ds: "map_raising DataSource_of xs = Inr ds" by auto
  from Cons.prems have "is_category x" by simp
  then obtain c where "DataSource_of x = Inr c"
    by (auto simp: is_category_def)
  with ds show ?case by simp
qed

lemma field_str:
  assumes "field_ok d k (\<lambda>v. as_str v \<noteq> None)"
  shows "\<exists>s. as_str (dict_get_default d k (JStr dflt)) = Some s
            \<and> (map_of d k = None \<longrightarrow> s = dflt)
            \<and> (\<forall>t. map_of d k = Some (JStr t) \<longrightarrow> s = t)"
  using assms by (auto simp: field_ok_def dict_get_default_def split: option.splits)

lemma field_optional_str:
  assumes "field_ok d k (\<lambda>v. as_optional_str v \<noteq> None)"
  shows "\<exists>s. as_optional_str (dict_get_default d k JNull) = Some s
            \<and> (map_of d k = None \<longrightarrow> s = None)"
  using assms by (auto simp: field_ok_def dict_get_default_def split: option.splits)

lemma field_str_list:
  assumes "field_ok d k (\<lambda>v. as_str_list v \<noteq> None)"
  shows "\<exists>s. as_str_list (dict_get_default d k (JList [])) = Some s
            \<and> (map_of d k = None \<longrightarrow> s = [])"
  using assms by (auto simp: field_ok_def dict_get_default_def split: option.splits)

lemma field_dict:
  assumes "field_ok d k (\<lambda>v. as_dict v \<noteq> None)"
  shows "\<exists>s. as_dict (dict_get_default d k (JObj [])) = Some s
            \<and> (map_of d k = None \<longrightarrow> s = [])"
  using assms by (auto simp: field_ok_def dict_get_default_def split: option.splits)

lemma field_categories:
  assumes "field_ok d k categories_ok"
  shows "\<exists>ds. (case py_iter (dict_get_default d k (JList [JStr ''orders''])) of
                 Inl e \<Rightarrow> Inl e | Inr xs \<Rightarrow> map_raising DataSource_of xs) = Inr ds
            \<and> (map_of d k = None \<longrightarrow> ds = [ORDERS])"
proof (cases "map_of d k")
  case None
  then show ?thesis by (simp add: dict_get_default_def)
next
  case (Some v)
  with assms have "categories_ok v" by (simp add: field_ok_def)
  then obtain xs where v: "py_iter v = Inr xs" and "list_all is_category xs"
    by (auto simp: categories_ok_def split: sum.splits)
  from map_raising_categories [OF this(2)] obtain ds where "map_raising DataSource_of xs = Inr ds"
    by blast
  with Some v show ?thesis by (simp add: dict_get_default_def)
qed

lemma intent_of_valid_fields:
  assumes "fields_validate d"
  shows "\<exists>intent. intent_of_response (JObj d) = Inr intent
          \<and> (map_of d ''primary_intent'' = None \<longrightarrow> primary_intent intent = ''general_analysis'')
          \<and> (\<forall>s. map_of d ''primary_intent'' = Some (JStr s) \<longrightarrow> primary_intent intent = s)
          \<and> (map_of d ''data_sources'' = None \<longrightarrow> data_sources intent = [ORDERS])
          \<and> (map_of d ''time_period'' = None \<longrightarrow> time_period intent = None)
          \<and> (map_of d ''metrics'' = None \<longrightarrow> metrics intent = [])
          \<and> (map_of d ''filters'' = None \<longrightarrow> filters intent = [])
          \<and> (map_of d ''aggregation'' = None \<longrightarrow> aggregation intent = None)"
proof -
  from assms have f: "field_ok d ''primary_intent'' (\<lambda>v. as_str v \<noteq> None)"
    "field_ok d ''data_sources'' categories_ok"
    "field_ok d ''time_period'' (\<lambda>v. as_optional_str v \<noteq> None)"
    "field_ok d ''metrics'' (\<lambda>v. as_str_list v \<noteq> None)"
    "field_ok d ''filters'' (\<lambda>v. as_dict v \<noteq> None)"
    "field_ok d ''aggregation'' (\<lambda>v. as_optional_str v \<noteq> None)"
    by (simp_all add: fields_validate_def)
  from field_str [OF f(1), of "''general_analysis''"] obtain g where
    g: "as_str (dict_get_default d ''primary_intent'' (JStr ''general_analysis'')) = Some g"
       "map_of d ''primary_intent'' = None \<longrightarrow> g = ''general_analysis''"
       "\<forall>t. map_of d ''primary_intent'' = Some (JStr t) \<longrightarrow> g = t"
    by (elim exE conjE) (rule that)
  from field_categories [OF f(2)] obtain ds where
    ds: "(case py_iter (dict_get_default d ''data_sources'' (JList [JStr ''orders''])) of
            Inl e \<Rightarrow> Inl e | Inr xs \<Rightarrow> map_raising DataSource_of xs) = Inr ds"
        "map_of d ''data_sources'' = None \<longrightarrow> ds = [ORDERS]"
    by (elim exE conjE) (rule that)
  from field_optional_str [OF f(3)] obtain tp where
    tp: "as_optional_str (dict_get_default d ''time_period'' JNull) = Some tp"
        "map_of d ''time_period'' = None \<longrightarrow> tp = None"
    by (elim exE conjE) (rule that)
  from field_str_list [OF f(4)] obtain ms where
    ms: "as_str_list (dict_get_default d ''metrics'' (JList [])) = Some ms"
        "map_of d ''metrics'' = None \<longrightarrow> ms = []"
    by (elim exE conjE) (rule that)
  from field_dict [OF f(5)] obtain fs where
    fs: "as_dict (dict_get_default d ''filters'' (JObj [])) = Some fs"
        "map_of d ''filters'' = None \<longrightarrow> fs = []"
    by (elim exE conjE) (rule that)
  from field_optional_str [OF f(6)] obtain ag where
    ag: "as_optional_str (dict_get_default d ''aggregation'' JNull) = Some ag"
        "map_of d ''aggregation'' = None \<longrightarrow> ag = None"
    by (elim exE conjE) (rule that)
  have "intent_of_response (JObj d)
          = Inr \<lparr>primary_intent = g, data_sources = ds, time_period = tp, metrics = ms,
                 filters = fs, aggregation = ag\<rparr>"
    using ds(1) g(1) tp(1) ms(1) fs(1) ag(1)
    by (auto simp: intent_of_response_def make_QuestionIntent_def split: sum.splits)
  with g ds tp ms fs ag show ?thesis by simp
qed

text \<open>
  C3, as stated, at three completions that the capability returns without raising: one
  names a data category outside the enumeration, and the extraction raises
  \<^verbatim>\<open>ValueError\<close> from \<^verbatim>\<open>DataSource("analytics")\<close>; one has a null goal, which the
  constructor of the intent rejects; one is a list, which has no \<^verbatim>\<open>get\<close>.
\<close>

theorem understand_intent_unknown_category_counterexample:
  "fst (llm_json (scripted (JObj [(''primary_intent'', JStr ''sales_analysis''),
                                  (''data_sources'', JList [JStr ''orders'', JStr ''analytics''])])
                   JNull JNull)
          (intent_prompt ''What sold best?'' None) 0.7 [])
     = Inr (JObj [(''primary_intent'', JStr ''sales_analysis''),
                  (''data_sources'', JList [JStr ''orders'', JStr ''analytics''])])
   \<and> fst (understand_intent
            (scripted (JObj [(''primary_intent'', JStr ''sales_analysis''),
                             (''data_sources'', JList [JStr ''orders'', JStr ''analytics''])])
               JNull JNull)
            ''What sold best?'' None (start []))
     = Inl ValueError
   \<and> fst (understand_intent (scripted (JObj [(''primary_intent'', JNull)]) JNull JNull)
            ''What sold best?'' None (start []))
     = Inl ValidationError
   \<and> fst (understand_intent (scripted (JList []) JNull JNull)
            ''What sold best?'' None (start []))
     = Inl AttributeError"
  by (simp add: understand_intent_def generate_json_def scripted_def start_def
      intent_of_response_def dict_get_default_def make_QuestionIntent_def)

text \<open>
  C3, amended. An exception of the capability call leaves the extraction as it is. For
  a completion that is an object whose fields, where present, validate, the extraction
  returns an intent and does not raise: a missing goal is \<open>general_analysis\<close> (a present
  one is kept), missing data categories are the list of \<open>orders\<close> alone, missing metrics
  and filters are empty, a missing time window and a missing aggregation are absent.
\<close>

theorem understand_intent_defaults:
  "(llm_json sv (intent_prompt question context) 0.7 (ext w) = (Inl e, s')
      \<longrightarrow> fst (understand_intent sv question context w) = Inl e)
   \<and> (llm_json sv (intent_prompt question context) 0.7 (ext w) = (Inr (JObj d), s')
        \<and> fields_validate d
      \<longrightarrow> (\<exists>intent. fst (understand_intent sv question context w) = Inr intent
          \<and> (map_of d ''primary_intent'' = None \<longrightarrow> primary_intent intent = ''general_analysis'')
          \<and> (\<forall>s. map_of d ''primary_intent'' = Some (JStr s) \<longrightarrow> primary_intent intent = s)
          \<and> (map_of d ''data_sources'' = None \<longrightarrow> data_sources intent = [ORDERS])
          \<and> (map_of d ''time_period'' = None \<longrightarrow> time_period intent = None)
          \<and> (map_of d ''metrics'' = None \<longrightarrow> metrics intent = [])
          \<and> (map_of d ''filters'' = None \<longrightarrow> filters intent = [])
          \<and> (map_of d ''aggregation'' = None \<longrightarrow> aggregation intent = None)))"
proof (intro conjI impI)
  assume "llm_json sv (intent_prompt question context) 0.7 (ext w) = (Inl e, s')"
  then show "fst (understand_intent sv question context w) = Inl e"
    by (simp add: understand_intent_def generate_json_def)
next
  assume a: "llm_json sv (intent_prompt question context) 0.7 (ext w) = (Inr (JObj d), s')
        \<and> fields_validate d"
  then have "fst (understand_intent sv question context w) = intent_of_response (JObj d)"
    by (simp add: understand_intent_def generate_json_def)
  with intent_of_valid_fields [of d] a
  show "\<exists>intent. fst (understand_intent sv question context w) = Inr intent
          \<and> (map_of d ''primary_intent'' = None \<longrightarrow> primary_intent intent = ''general_analysis'')
          \<and> (\<forall>s. map_of d ''primary_intent'' = Some (JStr s) \<longrightarrow> primary_intent intent = s)
          \<and> (map_of d ''data_sources'' = None \<longrightarrow> data_sources intent = [ORDERS])
          \<and> (map_of d ''time_period'' = None \<longrightarrow> time_period intent = None)
          \<and> (map_of d ''metrics'' = None \<longrightarrow> metrics intent = [])
          \<and> (map_of d ''filters'' = None \<longrightarrow> filters intent = [])
          \<and> (map_of d ''aggregation'' = None \<longrightarrow> aggregation intent = None)"
    by simp
qed

theorem understand_intent_defaults_witness:
  "fields_validate [(''metrics'', JList [JStr ''revenue''])]
   \<and> fst (understand_intent (scripted (JObj [(''metrics'', JList [JStr ''revenue''])]) JNull JNull)
            ''How is my store doing?'' None (start []))
     = Inr \<lparr>primary_intent = ''general_analysis'', data_sources = [ORDERS],
            time_period = None, metrics = [''revenue''], filters = [], aggregation = None\<rparr>
   \<and> fst (understand_intent
            \<lparr>llm_text = (\<lambda>p t s. (Inl UpstreamError, s)),
             llm_json = (\<lambda>p t s. (Inl UpstreamError, s)),
             execute_shopifyql = (\<lambda>q s. (Inl UpstreamError, s)),
             execute_graphql = (\<lambda>i s. (Inl UpstreamError, s))\<rparr>
            ''How is my store doing?'' None (start []))
     = Inl UpstreamError"
proof -
  let ?d = "[(''metrics'', JList [JStr ''revenue''])]"
  let ?sv = "scripted (JObj ?d) JNull JNull"
  let ?down = "\<lparr>llm_text = (\<lambda>p t s. (Inl UpstreamError, s)),
             llm_json = (\<lambda>p t s. (Inl UpstreamError, s)),
             execute_shopifyql = (\<lambda>q s. (Inl UpstreamError, s)),
             execute_graphql = (\<lambda>i (s::string list). (Inl UpstreamError, s))\<rparr>"
  have wt: "fields_validate ?d"
    by (simp add: fields_validate_def field_ok_def)
  have call: "llm_json ?sv (intent_prompt ''How is my store doing?'' None) 0.7 (ext (start []))
                = (Inr (JObj ?d), [])"
    by (simp add: scripted_def start_def)
  from understand_intent_defaults
         [of ?sv "''How is my store doing?''" None "start []" UpstreamError "[]" ?d] wt call
  obtain intent where
    i: "fst (understand_intent ?sv ''How is my store doing?'' None (start [])) = Inr intent"
       "primary_intent intent = ''general_analysis''" "data_sources intent = [ORDERS]"
       "time_period intent = None" "filters intent = []" "aggregation intent = None"
    by auto
  have m: "fst (understand_intent ?sv ''How is my store doing?'' None (start []))
     = Inr \<lparr>primary_intent = ''general_analysis'', data_sources = [ORDERS],
            time_period = None, metrics = [''revenue''], filters = [], aggregation = None\<rparr>"
    by (simp add: understand_intent_def generate_json_def scripted_def start_def
      intent_of_response_def dict_get_default_def make_QuestionIntent_def)
  have "llm_json ?down (intent_prompt ''How is my store doing?'' None) 0.7 (ext (start []))
          = (Inl UpstreamError, [])"
    by (simp add: start_def)
  with understand_intent_defaults
         [of ?down "''How is my store doing?''" None "start []" UpstreamError "[]" ?d]
  have "fst (understand_intent ?down ''How is my store doing?'' None (start []))
          = Inl UpstreamError"
    by blast
  with wt m show ?thesis by blast
qed

section \<open>Properties of generation and repair\<close>

lemma contains_iff: "contains sub s \<longleftrightarrow> (\<exists>pre post. s = pre @ sub @ post)"
proof (induction s)
  case Nil
  then show ?case by auto
next
  case (Cons c cs)
  show ?case
  proof
    assume "contains sub (c # cs)"
    then consider "prefix sub (c # cs)" | "contains sub cs" by auto
    then show "\<exists>pre post. c # cs = pre @ sub @ post"
    proof cases
      case 1
      then obtain zs where "c # cs = sub @ zs" by (auto simp: prefix_def)
      then have "c # cs = [] @ sub @ zs" by simp
      then show ?thesis by blast
    next
      case 2
      with Cons obtain pre post where "cs = pre @ sub @ post" by auto
      then have "c # cs = (c # pre) @ sub @ post" by simp
      then show ?thesis by blast
    qed
  next
    assume "\<exists>pre post. c # cs = pre @ sub @ post"
    then obtain pre post where e: "c # cs = pre @ sub @ post" by auto
    show "contains sub (c # cs)"
    proof (cases pre)
      case Nil
      with e have "prefix sub (c # cs)" by (auto simp: prefix_def)
      then show ?thesis by simp
    next
      case (Cons p ps)
      with e have "cs = ps @ sub @ post" by simp
      with Cons.IH have "contains sub cs" by blast
      then show ?thesis by simp
    qed
  qed
qed

lemma contains_within: "contains x y \<Longrightarrow> contains x (a @ y @ b)"
proof -
  assume "contains x y"
  then obtain p s where "y = p @ x @ s" by (auto simp: contains_iff)
  then have "a @ y @ b = (a @ p) @ x @ (s @ b)" by simp
  then show ?thesis unfolding contains_iff by blast
qed

lemma contains_self: "contains x x"
  unfolding contains_iff by (metis append_Nil append_Nil2)

lemma join_contains: "x \<in> set xs \<Longrightarrow> contains x (join sep xs)"
proof (induction sep xs rule: join.induct)
  case (1 sep)
  then show ?case by simp
next
  case (2 sep y)
  then show ?case by (simp add: contains_self)
next
  case (3 sep y z zs)
  show ?case
  proof (cases "x = y")
    case True
    have "contains x ([] @ x @ (sep @ join sep (z # zs)))"
      by (rule contains_within) (rule contains_self)
    with True show ?thesis by simp
  next
    case False
    with 3 have "contains x (join sep (z # zs))" by simp
    then have "contains x ((y @ sep) @ join sep (z # zs) @ [])"
      by (rule contains_within)
    then show ?thesis by simp
  qed
qed

lemma py_str_list_contains: "e \<in> set errs \<Longrightarrow> contains e (py_str_list errs)"
proof -
  assume e: "e \<in> set errs"
  have "contains e ([CHR 0x27] @ e @ [CHR 0x27])"
    by (rule contains_within) (rule contains_self)
  then have "contains e (py_repr_str e)" by (simp add: py_repr_str_def)
  then obtain p s where ps: "py_repr_str e = p @ e @ s" by (auto simp: contains_iff)
  from e have "py_repr_str e \<in> set (map py_repr_str errs)" by simp
  then have "contains (py_repr_str e) (join '', '' (map py_repr_str errs))"
    by (rule join_contains)
  then obtain p' s' where "join '', '' (map py_repr_str errs) = p' @ py_repr_str e @ s'"
    by (auto simp: contains_iff)
  with ps have "py_str_list errs = (''['' @ p' @ p) @ e @ (s @ s' @ '']'')"
    by (simp add: py_str_list_def)
  then show ?thesis unfolding contains_iff by blast
qed

lemma fix_prompt_contains_query: "contains q (fix_prompt q errs)"
proof -
  have "fix_prompt q errs
          = (''Fix this ShopifyQL query. It has the following errors: '' @ py_str_list errs
              @ ''\<newline>\<newline>Original query:\<newline>'') @ q
            @ (''\<newline>\<newline>'' @ SHOPIFYQL_SCHEMA
               @ ''\<newline>\<newline>Return ONLY the corrected query, no explanation.'')"
    by (simp add: fix_prompt_def)
  then show ?thesis unfolding contains_iff by blast
qed

lemma fix_prompt_contains_error: "e \<in> set errs \<Longrightarrow> contains e (fix_prompt q errs)"
proof -
  assume "e \<in> set errs"
  then have "contains e (py_str_list errs)" by (rule py_str_list_contains)
  then have "contains e (''Fix this ShopifyQL query. It has the following errors: ''
               @ py_str_list errs
               @ (''\<newline>\<newline>Original query:\<newline>'' @ q @ ''\<newline>\<newline>'' @ SHOPIFYQL_SCHEMA
                  @ ''\<newline>\<newline>Return ONLY the corrected query, no explanation.''))"
    by (rule contains_within)
  then show ?thesis by (simp add: fix_prompt_def)
qed

text \<open>
  C5. When the first completion cleans up to a query that fails validation and the
  repair completion returns, \<^verbatim>\<open>generate\<close> makes exactly two completion calls: the
  generation and one repair, whose prompt contains the failed query and every one of
  its validation errors. It returns the stripped repair completion as the query,
  whatever its validation says, with the validity flag and the error list of that
  second validation.
\<close>

theorem generate_single_repair:
  assumes "\<not> should_use_graphql intent"
    and "llm_text sv (generation_prompt py_str intent) 0.3 (ext w) = (Inr r1, s1)"
    and "clean_completion r1 = Inr q"
    and "\<not> is_valid (validate_query q)"
    and "llm_text sv (fix_prompt q (errors (validate_query q))) 0.2 s1 = (Inr r2, s2)"
  shows "generate py_str sv intent plan w
           = (Inr (shopifyql_result (strip r2) (validate_query (strip r2)) intent),
              \<lparr>ext = s2,
               trace = trace w
                 @ [LLMCall (generation_prompt py_str intent) ''text'' 0.3,
                    LLMCall (fix_prompt q (errors (validate_query q))) ''text'' 0.2]\<rparr>)
         \<and> query (shopifyql_result (strip r2) (validate_query (strip r2)) intent)
             = Some (strip r2)
         \<and> query_valid (shopifyql_result (strip r2) (validate_query (strip r2)) intent)
             = Some (is_valid (validate_query (strip r2)))
         \<and> validation_errors (shopifyql_result (strip r2) (validate_query (strip r2)) intent)
             = Some (errors (validate_query (strip r2)))
         \<and> contains q (fix_prompt q (errors (validate_query q)))
         \<and> list_all (\<lambda>e. contains e (fix_prompt q (errors (validate_query q))))
              (errors (validate_query q))"
proof -
  have g: "generate_with_llm py_str sv intent w
             = (Inr q, \<lparr>ext = s1,
                        trace = trace w @ [LLMCall (generation_prompt py_str intent) ''text'' 0.3]\<rparr>)"
    using assms(2,3) by (simp add: generate_with_llm_def generate_text_def)
  have f: "fix_query sv q (errors (validate_query q))
             \<lparr>ext = s1, trace = trace w @ [LLMCall (generation_prompt py_str intent) ''text'' 0.3]\<rparr>
           = (Inr (strip r2),
              \<lparr>ext = s2,
               trace = trace w
                 @ [LLMCall (generation_prompt py_str intent) ''text'' 0.3,
                    LLMCall (fix_prompt q (errors (validate_query q))) ''text'' 0.2]\<rparr>)"
    using assms(5) by (simp add: fix_query_def generate_text_def)
  have "generate py_str sv intent plan w
           = (Inr (shopifyql_result (strip r2) (validate_query (strip r2)) intent),
              \<lparr>ext = s2,
               trace = trace w
                 @ [LLMCall (generation_prompt py_str intent) ''text'' 0.3,
                    LLMCall (fix_prompt q (errors (validate_query q))) ''text'' 0.2]\<rparr>)"
    using assms(1,4) by (simp add: generate_def g f Let_def)
  moreover have "list_all (\<lambda>e. contains e (fix_prompt q (errors (validate_query q))))
              (errors (validate_query q))"
    by (simp add: list_all_iff fix_prompt_contains_error)
  ultimately show ?thesis
    by (simp add: shopifyql_result_def fix_prompt_contains_query)
qed

theorem generate_single_repair_witness:
  "generate sample_str (scripted JNull JNull JNull) sales_intent []
       (start [''SELECT * FROM sales'', ''FROM sales GROUP BY day''])
     = (Inr \<lparr>query = Some ''FROM sales GROUP BY day'', query_type = ''shopifyql'',
             reason = None, query_valid = Some False,
             validation_errors = Some [''Missing SHOW clause''],
             query_description =
               Some ''Aggregating sales data to identify top performers and trends''\<rparr>,
        \<lparr>ext = [],
         trace = [LLMCall (generation_prompt sample_str sales_intent) ''text'' 0.3,
                  LLMCall (fix_prompt ''SELECT * FROM sales'' [''Missing SHOW clause''])
                    ''text'' 0.2]\<rparr>)"
proof -
  let ?sv = "scripted JNull JNull JNull :: (string list) services"
  let ?w = "start [''SELECT * FROM sales'', ''FROM sales GROUP BY day'']"
  have a1: "\<not> should_use_graphql sales_intent"
    by (simp add: should_use_graphql_def sales_intent_def)
  have a2: "llm_text ?sv (generation_prompt sample_str sales_intent) 0.3 (ext ?w)
              = (Inr ''SELECT * FROM sales'', [''FROM sales GROUP BY day''])"
    by (simp add: scripted_def start_def)
  have a3: "clean_completion ''SELECT * FROM sales'' = Inr ''SELECT * FROM sales''"
    by code_simp
  have v1: "validate_query ''SELECT * FROM sales''
              = \<lparr>is_valid = False, errors = [''Missing SHOW clause'']\<rparr>"
    by code_simp
  have a4: "\<not> is_valid (validate_query ''SELECT * FROM sales'')"
    by (simp add: v1)
  have a5: "llm_text ?sv (fix_prompt ''SELECT * FROM sales''
                            (errors (validate_query ''SELECT * FROM sales'')))
              0.2 [''FROM sales GROUP BY day'']
              = (Inr ''FROM sales GROUP BY day'', [])"
    by (simp add: scripted_def)
  have s2: "strip ''FROM sales GROUP BY day'' = ''FROM sales GROUP BY day''"
    by code_simp
  have v2: "validate_query ''FROM sales GROUP BY day''
              = \<lparr>is_valid = False, errors = [''Missing SHOW clause'']\<rparr>"
    by code_simp
  have d: "describe_query sales_intent
             = ''Aggregating sales data to identify top performers and trends''"
    by (simp add: describe_query_def sales_intent_def)
  from generate_single_repair [OF a1 a2 a3 a4 a5, of "[]"]
  show ?thesis
    by (simp add: s2 v1 v2 d shopifyql_result_def start_def)
qed

section \<open>Properties of the summary statistics\<close>

lemma py_float_error:
  "py_float ops c = Inl e \<Longrightarrow> e = ValueError \<or> e = TypeError \<or> e = OverflowError"
  by (cases c) (auto split: option.splits)

lemma no_overflow_column:
  assumes "no_overflow ops rows" and "list_all (\<lambda>row. i < length row) rows"
  shows "list_all (\<lambda>row. py_float ops (row ! i) \<noteq> Inl OverflowError) rows"
  using assms by (auto simp: no_overflow_def list_all_iff)

lemma column_values_numeric:
  assumes "list_all (\<lambda>row. i < length row) rows"
    and "list_all (\<lambda>row. py_float ops (row ! i) \<noteq> Inl OverflowError) rows"
  shows "case numeric_cells ops i rows of
           Some vs \<Rightarrow> column_values ops i rows = Inr vs
         | None \<Rightarrow> column_values ops i rows = Inl ValueError
                    \<or> column_values ops i rows = Inl TypeError"
  using assms
proof (induction rows)
  case Nil
  then show ?case by (simp add: numeric_cells_def)
next
  case (Cons row rows)
  then have len: "i < length row" and rest: "list_all (\<lambda>row. i < length row) rows"
    and ok: "py_float ops (row ! i) \<noteq> Inl OverflowError"
    and oks: "list_all (\<lambda>row. py_float ops (row ! i) \<noteq> Inl OverflowError) rows"
    by simp_all
  note IH = Cons.IH [OF rest oks]
  show ?case
  proof (cases "row ! i = JNull")
    case True
    with IH len show ?thesis by (auto simp: numeric_cells_def split: option.splits)
  next
    case False
    show ?thesis
    proof (cases "py_float ops (row ! i)")
      case (Inl e)
      with py_float_error [OF Inl] ok False len show ?thesis
        by (auto simp: numeric_cells_def float_value_def)
    next
      case (Inr v)
      with IH False len show ?thesis
        by (auto simp: numeric_cells_def float_value_def split: option.splits)
    qed
  qed
qed

lemma map_of_dict_set: "map_of (dict_set d k v) = (map_of d)(k \<mapsto> v)"
  by (induction d k v rule: dict_set.induct) auto

lemma suffix_keys_differ:
  "col @ ''_total'' \<noteq> col' @ ''_average''" "col @ ''_total'' \<noteq> col' @ ''_max''"
  "col @ ''_total'' \<noteq> col' @ ''_min''" "col @ ''_average'' \<noteq> col' @ ''_max''"
  "col @ ''_average'' \<noteq> col' @ ''_min''" "col @ ''_max'' \<noteq> col' @ ''_min''"
  "col @ ''_average'' \<noteq> col' @ ''_total''" "col @ ''_max'' \<noteq> col' @ ''_total''"
  "col @ ''_min'' \<noteq> col' @ ''_total''" "col @ ''_max'' \<noteq> col' @ ''_average''"
  "col @ ''_min'' \<noteq> col' @ ''_average''" "col @ ''_min'' \<noteq> col' @ ''_max''"
proof -
  have l: "\<And>a b (x::string) y. last (a @ x) \<noteq> last (b @ y) \<Longrightarrow> a @ x \<noteq> b @ y"
    by auto
  show "col @ ''_total'' \<noteq> col' @ ''_average''" "col @ ''_total'' \<noteq> col' @ ''_max''"
  "col @ ''_total'' \<noteq> col' @ ''_min''" "col @ ''_average'' \<noteq> col' @ ''_max''"
  "col @ ''_average'' \<noteq> col' @ ''_min''" "col @ ''_max'' \<noteq> col' @ ''_min''"
  "col @ ''_average'' \<noteq> col' @ ''_total''" "col @ ''_max'' \<noteq> col' @ ''_total''"
  "col @ ''_min'' \<noteq> col' @ ''_total''" "col @ ''_max'' \<noteq> col' @ ''_average''"
  "col @ ''_min'' \<noteq> col' @ ''_average''" "col @ ''_min'' \<noteq> col' @ ''_max''"
    by (rule l, simp)+
qed

lemma summarise_column_map:
  assumes "list_all (\<lambda>row. i < length row) rows"
    and "list_all (\<lambda>row. py_float ops (row ! i) \<noteq> Inl OverflowError) rows"
  shows "\<exists>s'. summarise_column ops rows i col s = Inr s'
           \<and> map_of s' = map_of s ++ map_of (column_aggregates ops rows i col)"
proof (cases "is_metric_column col")
  case False
  then show ?thesis by (simp add: summarise_column_def column_aggregates_def)
next
  case True
  note cvn = column_values_numeric [OF assms]
  show ?thesis
  proof (cases "numeric_cells ops i rows")
    case None
    with cvn True show ?thesis
      by (auto simp: summarise_column_def column_aggregates_def)
  next
    case (Some vs)
    with cvn have cv: "column_values ops i rows = Inr vs" by simp
    show ?thesis
    proof (cases vs)
      case Nil
      with cv Some True show ?thesis
        by (simp add: summarise_column_def column_aggregates_def)
    next
      case (Cons v ws)
      with cv Some True show ?thesis
        by (auto simp: summarise_column_def column_aggregates_def aggregate_fields_def
            map_of_dict_set map_add_def suffix_keys_differ intro!: ext)
    qed
  qed
qed

lemma aggregate_fields_keys:
  "map_of (aggregate_fields ops col w ws) k = Some v \<Longrightarrow>
   k = col @ ''_total'' \<or> k = col @ ''_average'' \<or> k = col @ ''_max'' \<or> k = col @ ''_min''"
  by (simp add: aggregate_fields_def split: if_splits)

lemma column_aggregates_keys:
  assumes "map_of (column_aggregates ops rows i col) k = Some v"
  shows "k = col @ ''_total'' \<or> k = col @ ''_average'' \<or> k = col @ ''_max''
         \<or> k = col @ ''_min''"
proof (cases "column_aggregates ops rows i col = []")
  case True
  with assms show ?thesis by simp
next
  case False
  then obtain w ws where "column_aggregates ops rows i col = aggregate_fields ops col w ws"
    by (cases "numeric_cells ops i rows"; cases "the (numeric_cells ops i rows)")
       (auto simp: column_aggregates_def split: if_splits)
  with assms show ?thesis by (auto dest: aggregate_fields_keys)
qed

lemma table_aggregates_keys:
  "map_of (table_aggregates ops rows i cols) k = Some v \<Longrightarrow>
   \<exists>c \<in> set cols. k = c @ ''_total'' \<or> k = c @ ''_average'' \<or> k = c @ ''_max''
                    \<or> k = c @ ''_min''"
proof (induction cols arbitrary: i)
  case Nil
  then show ?case by simp
next
  case (Cons col cols)
  from Cons.prems consider
    (here) "map_of (column_aggregates ops rows i col) k = Some v"
    | (later) "map_of (table_aggregates ops rows (Suc i) cols) k = Some v"
    by (auto simp: map_add_Some_iff)
  then show ?case
  proof cases
    case here
    from column_aggregates_keys [OF this] show ?thesis by auto
  next
    case later
    from Cons.IH [OF this] show ?thesis by auto
  qed
qed

lemma key_of_other_column:
  assumes "c \<noteq> col"
    and "k = c @ ''_total'' \<or> k = c @ ''_average'' \<or> k = c @ ''_max'' \<or> k = c @ ''_min''"
  shows "map_of (column_aggregates ops rows i col) k = None"
proof (cases "map_of (column_aggregates ops rows i col) k")
  case None
  then show ?thesis .
next
  case (Some u)
  from column_aggregates_keys [OF this] assms show ?thesis
    by (auto simp: suffix_keys_differ)
qed

lemma summary_loop_map:
  assumes "distinct cols" and "list_all (\<lambda>row. i + length cols \<le> length row) rows"
    and "no_overflow ops rows"
  shows "\<exists>s'. summary_loop ops rows i cols s = Inr s'
           \<and> map_of s' = map_of s ++ map_of (table_aggregates ops rows i cols)"
  using assms
proof (induction cols arbitrary: i s)
  case Nil
  then show ?case by simp
next
  case (Cons col cols)
  from Cons.prems(2) have len: "list_all (\<lambda>row. i < length row) rows"
    by (fastforce simp: list_all_iff)
  from Cons.prems(2) have rest: "list_all (\<lambda>row. Suc i + length cols \<le> length row) rows"
    by (simp add: list_all_iff)
  note ok = no_overflow_column [OF Cons.prems(3) len]
  from summarise_column_map [OF len ok, of col s] obtain s1 where
    s1: "summarise_column ops rows i col s = Inr s1"
        "map_of s1 = map_of s ++ map_of (column_aggregates ops rows i col)"
    by blast
  from Cons.prems(1) have d: "distinct cols" and nin: "col \<notin> set cols" by simp_all
  from Cons.IH [OF d rest Cons.prems(3), of s1] obtain s' where
    s': "summary_loop ops rows (Suc i) cols s1 = Inr s'"
        "map_of s' = map_of s1 ++ map_of (table_aggregates ops rows (Suc i) cols)"
    by blast
  have "map_of s' = map_of s ++ map_of (table_aggregates ops rows i (col # cols))"
  proof (rule ext)
    fix k
    show "map_of s' k = (map_of s ++ map_of (table_aggregates ops rows i (col # cols))) k"
    proof (cases "map_of (table_aggregates ops rows (Suc i) cols) k")
      case None
      with s'(2) s1(2) show ?thesis by (simp add: map_add_def split: option.splits)
    next
      case (Some v)
      from table_aggregates_keys [OF this] obtain c where
        "c \<in> set cols"
        "k = c @ ''_total'' \<or> k = c @ ''_average'' \<or> k = c @ ''_max'' \<or> k = c @ ''_min''"
        by blast
      with nin have "map_of (column_aggregates ops rows i col) k = None"
        by (intro key_of_other_column [of c]) auto
      with Some s'(2) s1(2) show ?thesis by (simp add: map_add_def split: option.splits)
    qed
  qed
  with s1(1) s'(1) show ?case by simp
qed

lemma table_aggregates_nth:
  assumes "distinct cols" and "j < length cols"
    and "k = cols ! j @ ''_total'' \<or> k = cols ! j @ ''_average'' \<or> k = cols ! j @ ''_max''
         \<or> k = cols ! j @ ''_min''"
  shows "map_of (table_aggregates ops rows i cols) k
           = map_of (column_aggregates ops rows (i + j) (cols ! j)) k"
  using assms
proof (induction cols arbitrary: i j)
  case Nil
  then show ?case by simp
next
  case (Cons col cols)
  show ?case
  proof (cases j)
    case 0
    show ?thesis
    proof (cases "map_of (table_aggregates ops rows (Suc i) cols) k")
      case None
      with 0 show ?thesis by (simp add: map_add_def split: option.splits)
    next
      case (Some v)
      from table_aggregates_keys [OF this] obtain c where c: "c \<in> set cols"
        "k = c @ ''_total'' \<or> k = c @ ''_average'' \<or> k = c @ ''_max'' \<or> k = c @ ''_min''"
        by blast
      with Cons.prems(1) have "c \<noteq> col" by auto
      with c(2) Cons.prems(3) 0 have False
        by (auto simp: suffix_keys_differ)
      then show ?thesis ..
    qed
  next
    case (Suc j')
    with Cons.prems have d: "distinct cols" and j': "j' < length cols"
      and k: "k = cols ! j' @ ''_total'' \<or> k = cols ! j' @ ''_average''
              \<or> k = cols ! j' @ ''_max'' \<or> k = cols ! j' @ ''_min''"
      and ne: "cols ! j' \<noteq> col"
      by auto
    from key_of_other_column [OF ne k]
    have "map_of (column_aggregates ops rows i col) k = None" .
    with Cons.IH [OF d j' k, of "Suc i"] Suc show ?thesis
      by (simp add: map_add_def split: option.splits)
  qed
qed

lemma base_keys:
  assumes "k = c @ ''_total'' \<or> k = c @ ''_average'' \<or> k = c @ ''_max'' \<or> k = c @ ''_min''"
  shows "k \<noteq> ''total_rows''" and "k \<noteq> ''columns''"
proof -
  from assms have "last k = CHR ''l'' \<or> last k = CHR ''e'' \<or> last k = CHR ''x''
                   \<or> last k = CHR ''n''"
    by auto
  then show "k \<noteq> ''total_rows''" and "k \<noteq> ''columns''"
    by auto
qed

lemma generate_summary_map:
  assumes "distinct columns" and "list_all (\<lambda>row. length columns \<le> length row) rows"
    and "no_overflow ops rows" and "i < length columns"
    and "k = columns ! i @ ''_total'' \<or> k = columns ! i @ ''_average''
         \<or> k = columns ! i @ ''_max'' \<or> k = columns ! i @ ''_min''"
  shows "\<exists>s. generate_summary ops columns rows intent = Inr s
           \<and> map_of s ''total_rows'' = Some (JInt (int (length rows)))
           \<and> map_of s k = map_of (column_aggregates ops rows i (columns ! i)) k"
proof -
  let ?s0 = "[(''total_rows'', JInt (int (length rows))), (''columns'', JList (map JStr columns))]"
  from assms(2) have "list_all (\<lambda>row. 0 + length columns \<le> length row) rows" by simp
  from summary_loop_map [OF assms(1) this assms(3), of ?s0] obtain s where
    s: "summary_loop ops rows 0 columns ?s0 = Inr s"
       "map_of s = map_of ?s0 ++ map_of (table_aggregates ops rows 0 columns)"
    by blast
  have t: "map_of (table_aggregates ops rows 0 columns) k
             = map_of (column_aggregates ops rows i (columns ! i)) k"
    using table_aggregates_nth [OF assms(1,4,5), where ops = ops and rows = rows and i = 0]
    by simp
  have tr: "map_of (table_aggregates ops rows 0 columns) ''total_rows'' = None"
  proof (cases "map_of (table_aggregates ops rows 0 columns) ''total_rows''")
    case None
    then show ?thesis .
  next
    case (Some v)
    from table_aggregates_keys [OF this] base_keys(1) show ?thesis by blast
  qed
  have "map_of s k = map_of (column_aggregates ops rows i (columns ! i)) k"
    using s(2) t base_keys [OF assms(5)] by (simp add: map_add_def split: option.splits)
  moreover have "map_of s ''total_rows'' = Some (JInt (int (length rows)))"
    using s(2) tr by (simp add: map_add_def)
  ultimately show ?thesis using s(1) by (simp add: generate_summary_def)
qed

lemma column_aggregates_fields:
  "if is_metric_column col
   then (case numeric_cells ops i rows of
           None \<Rightarrow> no_aggregates (column_aggregates ops rows i col) col
         | Some [] \<Rightarrow> no_aggregates (column_aggregates ops rows i col) col
         | Some (v # vs) \<Rightarrow> has_aggregates ops (column_aggregates ops rows i col) col v vs)
   else no_aggregates (column_aggregates ops rows i col) col"
  by (simp add: column_aggregates_def no_aggregates_def has_aggregates_def
      aggregate_fields_def suffix_keys_differ split: option.splits list.splits)

lemma aggregates_transfer:
  assumes "\<And>k. k = col @ ''_total'' \<or> k = col @ ''_average'' \<or> k = col @ ''_max''
                 \<or> k = col @ ''_min'' \<Longrightarrow> map_of s k = map_of a k"
  shows "no_aggregates s col = no_aggregates a col"
    and "has_aggregates ops s col v vs = has_aggregates ops a col v vs"
  using assms by (simp_all add: no_aggregates_def has_aggregates_def)

text \<open>
  C2, as stated, at a column \<open>total_sales\<close> with the cells 10, \<^verbatim>\<open>"N/A"\<close> and 20: two
  cells are numbers, yet the summary has no aggregate of the column at all, since the
  \<^verbatim>\<open>ValueError\<close> of the one text cell ends the whole comprehension of the column.
\<close>

theorem generate_summary_unparseable_cell_counterexample:
  "is_metric_column ''total_sales''
   \<and> parseable_values sample_ops 1 (sales_rows (JStr ''N/A'')) = [Finite 10, Finite 20]
   \<and> generate_summary sample_ops [''day'', ''total_sales''] (sales_rows (JStr ''N/A''))
        sales_intent
      = Inr [(''total_rows'', JInt 3),
             (''columns'', JList [JStr ''day'', JStr ''total_sales''])]"
proof -
  have m: "is_metric_column ''total_sales''" and n: "\<not> is_metric_column ''day''"
    by code_simp+
  have p: "parseable_values sample_ops 1 (sales_rows (JStr ''N/A'')) = [Finite 10, Finite 20]"
    by (simp add: parseable_values_def sales_rows_def float_value_def sample_ops_def)
  have c: "column_values sample_ops (Suc 0) (sales_rows (JStr ''N/A'')) = Inl ValueError"
    by (simp add: sales_rows_def sample_ops_def)
  have "generate_summary sample_ops [''day'', ''total_sales''] (sales_rows (JStr ''N/A''))
        sales_intent
      = Inr [(''total_rows'', JInt (int (length (sales_rows (JStr ''N/A''))))),
             (''columns'', JList [JStr ''day'', JStr ''total_sales''])]"
    by (simp add: generate_summary_def summarise_column_def m n c)
  then show ?thesis using m p by (simp add: sales_rows_def)
qed

text \<open>
  C2, amended. For a table whose columns have distinct names, whose rows have a cell
  for every column and which has no integer cell beyond the range of a float, the
  summary is produced, and for every column with a keyword in its name: when every
  non-null cell of the column is accepted by \<^verbatim>\<open>float\<close> and there is at least one, the
  summary has Python's sum, average, maximum and minimum of these values (null cells
  are skipped); when one non-null cell is not accepted, or no cell is non-null, the
  summary has none of the four fields of the column. Each column is decided on its own
  cells, so the aggregates of the other columns are produced all the same. A column
  without keyword has no aggregate. This holds for every float arithmetic \<open>ops\<close>.
\<close>

theorem generate_summary_aggregates:
  assumes "distinct columns" and "list_all (\<lambda>row. length columns \<le> length row) rows"
    and "no_overflow ops rows" and "i < length columns"
  shows "\<exists>s. generate_summary ops columns rows intent = Inr s
           \<and> map_of s ''total_rows'' = Some (JInt (int (length rows)))
           \<and> (if is_metric_column (columns ! i)
               then (case numeric_cells ops i rows of
                       None \<Rightarrow> no_aggregates s (columns ! i)
                     | Some [] \<Rightarrow> no_aggregates s (columns ! i)
                     | Some (v # vs) \<Rightarrow> has_aggregates ops s (columns ! i) v vs)
               else no_aggregates s (columns ! i))"
proof -
  let ?col = "columns ! i"
  from generate_summary_map [OF assms, where k = "?col @ ''_total''" and intent = intent]
  obtain s where
    s: "generate_summary ops columns rows intent = Inr s"
       "map_of s ''total_rows'' = Some (JInt (int (length rows)))"
    by auto
  have k: "map_of s k = map_of (column_aggregates ops rows i ?col) k"
    if "k = ?col @ ''_total'' \<or> k = ?col @ ''_average'' \<or> k = ?col @ ''_max''
        \<or> k = ?col @ ''_min''" for k
    using generate_summary_map [OF assms that, where intent = intent] s(1) by auto
  note tr = aggregates_transfer [of ?col s "column_aggregates ops rows i ?col", OF k]
  from column_aggregates_fields [where col = ?col and ops = ops and i = i and rows = rows]
  have "if is_metric_column ?col
        then (case numeric_cells ops i rows of
                None \<Rightarrow> no_aggregates s ?col
              | Some [] \<Rightarrow> no_aggregates s ?col
              | Some (v # vs) \<Rightarrow> has_aggregates ops s ?col v vs)
        else no_aggregates s ?col"
    by (simp add: tr split: option.splits list.splits if_splits)
  with s show ?thesis by blast
qed

theorem generate_summary_aggregates_witness:
  "\<exists>s. generate_summary sample_ops [''day'', ''total_sales''] (sales_rows (JStr ''10.5''))
          sales_intent = Inr s
      \<and> map_of s ''total_sales_total'' = Some (JFloat (Finite 40.5))
      \<and> map_of s ''total_sales_average'' = Some (JFloat (Finite 13.5))
      \<and> map_of s ''total_sales_max'' = Some (JFloat (Finite 20))
      \<and> map_of s ''total_sales_min'' = Some (JFloat (Finite 10))"
proof -
  let ?cols = "[''day'', ''total_sales'']"
  let ?rows = "sales_rows (JStr ''10.5'')"
  have a1: "distinct ?cols" by simp
  have a2: "list_all (\<lambda>row. length ?cols \<le> length row) ?rows"
    by (simp add: sales_rows_def)
  have a3: "no_overflow sample_ops ?rows"
    by (simp add: no_overflow_def sales_rows_def sample_ops_def)
  have a4: "(1::nat) < length ?cols" by simp
  have m: "is_metric_column (?cols ! 1)" by code_simp
  have n: "numeric_cells sample_ops 1 ?rows = Some [Finite 10, Finite 10.5, Finite 20]"
    by (simp add: numeric_cells_def sales_rows_def float_value_def sample_ops_def)
  from generate_summary_aggregates [OF a1 a2 a3 a4, of sales_intent] m n
  obtain s where s: "generate_summary sample_ops ?cols ?rows sales_intent = Inr s"
    "has_aggregates sample_ops s (?cols ! 1) (Finite 10) [Finite 10.5, Finite 20]"
    by auto
  from s(2) have "map_of s ''total_sales_total'' = Some (JFloat (Finite 40.5))
      \<and> map_of s ''total_sales_average'' = Some (JFloat (Finite 13.5))
      \<and> map_of s ''total_sales_max'' = Some (JFloat (Finite 20))
      \<and> map_of s ''total_sales_min'' = Some (JFloat (Finite 10))"
    by (simp add: has_aggregates_def sample_ops_def max_of_def min_of_def)
  with s(1) show ?thesis by blast
qed


end
